theory Spec2Isabelle
  imports Complex_Main
begin

section \<open>The chat route of CoinMind: \<open>src/app/api/chat/route.ts\<close>\<close>

text \<open>
  The route handler \<open>POST\<close> and its helper \<open>handleFinancialQueryWithLLM\<close> are embedded
  as functions that pass an explicit world (the ledger and the log of collaborator calls)
  and return either a thrown error (\<open>Inl\<close>) or a value (\<open>Inr\<close>).  Every collaborator that
  the route imports (the Gemini model, the CSV and text parsers, the services, the
  currency converter, the formatter, the language detector, \<open>JSON.parse\<close>) is a field of
  the environment record: its code is not part of the route, so the theorems hold for
  every behaviour of it.  The outcome of a collaborator call may depend on the calls made
  before it, so the same call can succeed once and fail later.

  Numbers are modelled as reals: rounding of IEEE doubles is not modelled and amounts are
  taken to be finite.  Strings are lists of 8-bit characters; the emoji of the message
  templates are left out of the literals.  Calls of the logger are left out: they return
  nothing that the route uses.

  The route reads the body of the request twice: \<open>request.json()\<close> at line 125 and
  again at line 155.  Both reads are calls of one collaborator, so the second one may
  yield a body (as a test double does) or throw (as a runtime does that lets a body be
  read once); the preview phase answers 500 in the second case.

  The values of the imported types are taken as their TypeScript types give them: a row
  of \<open>result.transactions\<close> is an object with a numeric \<open>amount\<close>, a file descriptor has
  a name, a size, a type and a time.  The properties of a parsed JSON object are an
  association list that is read with \<open>map_of\<close>.
\<close>

subsection \<open>Strings\<close>

definition nl :: string where
  "nl = [CHR 0x0A]"

text \<open>The ASCII characters of the class \<open>\s\<close> and of \<open>String.prototype.trim\<close>.\<close>

definition is_space :: "char \<Rightarrow> bool" where
  "is_space c = (c \<in> set [CHR 0x20, CHR 0x09, CHR 0x0A, CHR 0x0B, CHR 0x0C, CHR 0x0D])"

definition trim :: "string \<Rightarrow> string" where
  "trim s = rev (dropWhile is_space (rev (dropWhile is_space s)))"

fun strip_prefix :: "string \<Rightarrow> string \<Rightarrow> string option" where
  "strip_prefix [] s = Some s"
| "strip_prefix (p # ps) [] = None"
| "strip_prefix (p # ps) (c # cs) = (if p = c then strip_prefix ps cs else None)"

text \<open>
  \<open>find_sub p s\<close> is the first occurrence of \<open>p\<close> in \<open>s\<close>: the text before it and the text
  after it.
\<close>

fun find_sub :: "string \<Rightarrow> string \<Rightarrow> (string \<times> string) option" where
  "find_sub p [] = (if p = [] then Some ([], []) else None)"
| "find_sub p (c # cs) =
     (case strip_prefix p (c # cs) of
        Some r \<Rightarrow> Some ([], r)
      | None \<Rightarrow> (case find_sub p cs of
                   None \<Rightarrow> None
                 | Some (b, a) \<Rightarrow> Some (c # b, a)))"

text \<open>\<open>s.includes(p)\<close>\<close>

definition includes_str :: "string \<Rightarrow> string \<Rightarrow> bool" where
  "includes_str s p = (find_sub p s \<noteq> None)"

text \<open>Upper case of an ASCII letter, for the flag \<open>i\<close> of a regular expression.\<close>

definition upper :: "char \<Rightarrow> char" where
  "upper c = (if 97 \<le> (of_char c :: nat) \<and> (of_char c :: nat) \<le> 122
              then char_of ((of_char c :: nat) - 32) else c)"

fun strip_prefix_ci :: "string \<Rightarrow> string \<Rightarrow> string option" where
  "strip_prefix_ci [] s = Some s"
| "strip_prefix_ci (p # ps) [] = None"
| "strip_prefix_ci (p # ps) (c # cs) =
     (if upper p = upper c then strip_prefix_ci ps cs else None)"

text \<open>Decimal digits of a natural number, as a template literal prints a count.\<close>

fun show_nat :: "nat \<Rightarrow> string" where
  "show_nat n =
     (if n < 10 then [char_of (48 + n)]
      else show_nat (n div 10) @ [char_of (48 + n mod 10)])"

declare show_nat.simps [simp del]

subsection \<open>Errors and JSON values\<close>

text \<open>
  A thrown value: an \<open>Error\<close> object with its message, or anything else
  (\<open>error instanceof Error\<close> is false).
\<close>

datatype error = Error string | NonError

datatype json =
    JNull
  | JBool bool
  | JNum real
  | JStr string
  | JArr "json list"
  | JObj "(string \<times> json) list"

text \<open>
  \<open>parsed.key\<close>: reading a property of \<open>null\<close> throws a \<open>TypeError\<close>; a key that an
  object does not have, and any property of this kind on a boolean, number, string or
  array, is \<open>undefined\<close> (\<open>None\<close>).
\<close>

fun get_prop :: "json \<Rightarrow> string \<Rightarrow> error + json option" where
  "get_prop JNull k = Inl (Error ''TypeError'')"
| "get_prop (JObj kvs) k = Inr (map_of kvs k)"
| "get_prop j k = Inr None"

fun typeof_boolean :: "json option \<Rightarrow> bool option" where
  "typeof_boolean (Some (JBool b)) = Some b"
| "typeof_boolean j = None"

fun typeof_string :: "json option \<Rightarrow> string option" where
  "typeof_string (Some (JStr s)) = Some s"
| "typeof_string j = None"

subsection \<open>Data of the route\<close>

type_synonym user_id = string

text \<open>\<open>fileInfo\<close> and \<open>previousFile\<close> of the request body.\<close>

record file_meta =
  fm_name :: string
  fm_size :: nat
  fm_type :: string
  fm_lastModified :: int

text \<open>
  The body that \<open>request.json()\<close> yields.  \<open>rb_message\<close> is \<open>None\<close> when the property is
  absent or not a string; an absent \<open>type\<close>, \<open>fileInfo\<close> or \<open>previousFile\<close> is \<open>None\<close>.
\<close>

record request_body =
  rb_message :: "string option"
  rb_type :: "string option"
  rb_fileInfo :: "file_meta option"
  rb_previousFile :: "file_meta option"

text \<open>What \<open>parseTransactionText\<close> returns: every property may be \<open>undefined\<close>.\<close>

record parsed_transaction =
  pt_amount :: "real option"
  pt_description :: "string option"
  pt_currency :: "string option"
  pt_category :: "string option"
  pt_type :: "string option"
  pt_date :: "int option"
  pt_vendor :: "string option"

text \<open>The object \<open>transactionInfo\<close> of the default path.\<close>

record transaction_info =
  ti_description :: string
  ti_amount :: real
  ti_currency :: "string option"
  ti_category :: string
  ti_type :: string
  ti_date :: "int option"
  ti_vendor :: "string option"

text \<open>An element of \<open>result.transactions\<close>, and the result of \<open>parseCSVWithGemini\<close>.\<close>

record csv_row =
  row_description :: string
  row_amount :: real
  row_category :: string
  row_date :: "int option"
  row_type :: string
  row_vendor :: "string option"

record csv_result =
  cr_transactions :: "csv_row list"
  cr_preview :: string

text \<open>
  The object \<open>newTransaction\<close> of the confirm phase.  \<open>nt_conversionRate\<close> is \<open>None\<close> when
  the division that computes it has a zero divisor (JavaScript yields \<open>NaN\<close> or an
  infinity there).
\<close>

record new_transaction =
  nt_description :: string
  nt_originalAmount :: real
  nt_originalCurrency :: string
  nt_convertedAmount :: real
  nt_convertedCurrency :: string
  nt_conversionRate :: "real option"
  nt_conversionFee :: real
  nt_category :: string
  nt_date :: "int option"
  nt_type :: string
  nt_vendor :: string

text \<open>
  The second argument of \<open>services.transactions.createTransaction\<close>.  The confirm phase
  passes no \<open>type\<close> (\<open>None\<close>).
\<close>

record create_input =
  ci_amount :: real
  ci_currency :: string
  ci_description :: string
  ci_category :: string
  ci_type :: "string option"
  ci_date :: "int option"
  ci_vendor :: string

text \<open>A row of \<open>getTransactions\<close> (only \<open>amount\<close> is read) and a profile.\<close>

record stored_transaction =
  st_amount :: "real option"

record profile =
  pr_defaultCurrency :: "string option"

text \<open>The values that replace the placeholders of \<open>SYSTEM_PROMPT\<close>.\<close>

record snapshot =
  sn_balance :: string
  sn_income :: string
  sn_expenses :: string
  sn_transactionCount :: nat
  sn_defaultCurrency :: string

text \<open>
  A prompt is the template that the route fills and the values it fills in; the text of
  the template is the business of the completion service.
\<close>

datatype prompt =
    ClassifyPrompt string "string option"
  | DuplicateAnalysisPrompt file_meta file_meta
  | DuplicateMessagePrompt file_meta string
  | TransactionSuccessPrompt snapshot string transaction_info string
  | TransactionErrorPrompt snapshot string
  | GeneralPrompt snapshot string
  | FallbackPrompt string

text \<open>The calls that the route makes to its collaborators.\<close>

datatype call =
    RequestJson
  | GenerateContent prompt
  | ParseCSVWithGemini string
  | GetServices
  | FindById user_id
  | GetTransactions user_id nat
  | ConvertAmount real string string
  | CreateTransaction user_id create_input
  | ParseTransactionText string
  | DetectLanguage string
  | AnswerFinancialQuestion user_id string string

record world =
  ledger :: "(user_id \<times> create_input) list"
  calls :: "call list"

text \<open>
  The collaborators.  Each one reads the calls made so far; \<open>JSON.parse\<close> and the two
  methods of \<open>CurrencyFormatter\<close> are pure.  \<open>env_createTransaction\<close> yields the error it
  throws, or \<open>None\<close> when it stores the record.
\<close>

record env =
  env_GEMINI_API_KEY :: "string option"
  env_requestJson :: "call list \<Rightarrow> error + request_body"
  env_generateContent :: "call list \<Rightarrow> prompt \<Rightarrow> error + string"
  env_parseCSVWithGemini :: "call list \<Rightarrow> string \<Rightarrow> error + csv_result"
  env_getServices :: "call list \<Rightarrow> error + user_id"
  env_findById :: "call list \<Rightarrow> user_id \<Rightarrow> error + profile option"
  env_getTransactions :: "call list \<Rightarrow> user_id \<Rightarrow> nat \<Rightarrow> error + stored_transaction list"
  env_convertAmount :: "call list \<Rightarrow> real \<Rightarrow> string \<Rightarrow> string \<Rightarrow> error + real"
  env_createTransaction :: "call list \<Rightarrow> user_id \<Rightarrow> create_input \<Rightarrow> error option"
  env_parseTransactionText :: "call list \<Rightarrow> string \<Rightarrow> error + parsed_transaction"
  env_detectLanguage :: "call list \<Rightarrow> string \<Rightarrow> error + string"
  env_answerFinancialQuestion :: "call list \<Rightarrow> user_id \<Rightarrow> string \<Rightarrow> string \<Rightarrow> error + string"
  env_JSON_parse :: "string \<Rightarrow> error + json"
  env_format :: "real \<Rightarrow> string \<Rightarrow> error + string"
  env_formatWithSymbol :: "real \<Rightarrow> string \<Rightarrow> error + string"

definition logged :: "call \<Rightarrow> world \<Rightarrow> world" where
  "logged c w = w\<lparr>calls := calls w @ [c]\<rparr>"

definition requestJson :: "env \<Rightarrow> world \<Rightarrow> (error + request_body) \<times> world" where
  "requestJson e w = (env_requestJson e (calls w), logged RequestJson w)"

text \<open>\<open>model.generateContent(prompt)\<close> followed by \<open>response.text()\<close>.\<close>

definition generateContent :: "env \<Rightarrow> prompt \<Rightarrow> world \<Rightarrow> (error + string) \<times> world" where
  "generateContent e p w = (env_generateContent e (calls w) p, logged (GenerateContent p) w)"

definition parseCSVWithGemini :: "env \<Rightarrow> string \<Rightarrow> world \<Rightarrow> (error + csv_result) \<times> world" where
  "parseCSVWithGemini e t w =
     (env_parseCSVWithGemini e (calls w) t, logged (ParseCSVWithGemini t) w)"

definition getServices :: "env \<Rightarrow> world \<Rightarrow> (error + user_id) \<times> world" where
  "getServices e w = (env_getServices e (calls w), logged GetServices w)"

definition findById :: "env \<Rightarrow> user_id \<Rightarrow> world \<Rightarrow> (error + profile option) \<times> world" where
  "findById e u w = (env_findById e (calls w) u, logged (FindById u) w)"

definition getTransactions ::
  "env \<Rightarrow> user_id \<Rightarrow> nat \<Rightarrow> world \<Rightarrow> (error + stored_transaction list) \<times> world" where
  "getTransactions e u n w = (env_getTransactions e (calls w) u n, logged (GetTransactions u n) w)"

definition convertAmount ::
  "env \<Rightarrow> real \<Rightarrow> string \<Rightarrow> string \<Rightarrow> world \<Rightarrow> (error + real) \<times> world" where
  "convertAmount e a f t w = (env_convertAmount e (calls w) a f t, logged (ConvertAmount a f t) w)"

text \<open>The one call that changes the ledger: a record that is accepted is appended.\<close>

definition createTransaction ::
  "env \<Rightarrow> user_id \<Rightarrow> create_input \<Rightarrow> world \<Rightarrow> (error + unit) \<times> world" where
  "createTransaction e u i w =
     (case env_createTransaction e (calls w) u i of
        Some err \<Rightarrow> (Inl err, logged (CreateTransaction u i) w)
      | None \<Rightarrow> (Inr (), logged (CreateTransaction u i) (w\<lparr>ledger := ledger w @ [(u, i)]\<rparr>)))"

definition parseTransactionText ::
  "env \<Rightarrow> string \<Rightarrow> world \<Rightarrow> (error + parsed_transaction) \<times> world" where
  "parseTransactionText e m w =
     (env_parseTransactionText e (calls w) m, logged (ParseTransactionText m) w)"

text \<open>\<open>detectLanguage(message).code\<close>\<close>

definition detectLanguage :: "env \<Rightarrow> string \<Rightarrow> world \<Rightarrow> (error + string) \<times> world" where
  "detectLanguage e m w = (env_detectLanguage e (calls w) m, logged (DetectLanguage m) w)"

definition answerFinancialQuestion ::
  "env \<Rightarrow> user_id \<Rightarrow> string \<Rightarrow> string \<Rightarrow> world \<Rightarrow> (error + string) \<times> world" where
  "answerFinancialQuestion e u m l w =
     (env_answerFinancialQuestion e (calls w) u m l, logged (AnswerFinancialQuestion u m l) w)"

text \<open>JavaScript truthiness of an optional string, and \<open>x || d\<close>.\<close>

fun truthy :: "string option \<Rightarrow> bool" where
  "truthy None = False"
| "truthy (Some s) = (s \<noteq> [])"

fun or_else :: "string option \<Rightarrow> string \<Rightarrow> string" where
  "or_else None d = d"
| "or_else (Some s) d = (if s = [] then d else s)"

text \<open>\<open>profile?.defaultCurrency || "USD"\<close>\<close>

fun defaultCurrencyOf :: "profile option \<Rightarrow> string" where
  "defaultCurrencyOf None = ''USD''"
| "defaultCurrencyOf (Some p) = or_else (pr_defaultCurrency p) ''USD''"

subsection \<open>\<open>handleFinancialQueryWithLLM\<close>\<close>

record classification =
  isFinancial :: bool
  intent :: string
  response :: string

definition unknownIntent :: classification where
  "unknownIntent = \<lparr>isFinancial = False, intent = ''unknown'', response = []\<rparr>"

text \<open>
  \<open>text.match(/```(?:json)?\s*\n?([\s\S]*?)\n?```/)\<close>: the match starts at the first
  fence; \<open>json\<close> is taken when it follows, then all white space; the lazy group ends at
  the next fence, without the line feed that may stand before it.  There is no match
  when no second fence follows.  The result is the group.
\<close>

definition codeBlockMatch :: "string \<Rightarrow> string option" where
  "codeBlockMatch t =
     (case find_sub ''```'' t of
        None \<Rightarrow> None
      | Some (b, r) \<Rightarrow>
          (let r1 = (case strip_prefix ''json'' r of Some r' \<Rightarrow> r' | None \<Rightarrow> r);
               r2 = dropWhile is_space r1
           in case find_sub ''```'' r2 of
                None \<Rightarrow> None
              | Some (g, a) \<Rightarrow>
                  Some (if g \<noteq> [] \<and> last g = CHR 0x0A then butlast g else g)))"

definition jsonTextOf :: "string \<Rightarrow> string" where
  "jsonTextOf t = (case codeBlockMatch t of Some g \<Rightarrow> trim g | None \<Rightarrow> t)"

text \<open>
  The inner \<open>try\<close> block: \<open>Inl\<close> when it throws, \<open>Inr None\<close> when the type test fails,
  \<open>Inr (Some c)\<close> when it returns \<open>c\<close>.
\<close>

definition parseClassification :: "env \<Rightarrow> string \<Rightarrow> error + classification option" where
  "parseClassification e t =
     (case env_JSON_parse e (jsonTextOf t) of
        Inl err \<Rightarrow> Inl err
      | Inr parsed \<Rightarrow>
          (case get_prop parsed ''isFinancial'' of
             Inl err \<Rightarrow> Inl err
           | Inr f \<Rightarrow>
               (case typeof_boolean f of
                  None \<Rightarrow> Inr None
                | Some b \<Rightarrow>
                    (case get_prop parsed ''intent'' of
                       Inl err \<Rightarrow> Inl err
                     | Inr i \<Rightarrow>
                         (case typeof_string i of
                            None \<Rightarrow> Inr None
                          | Some s \<Rightarrow>
                              Inr (Some \<lparr>isFinancial = b, intent = s, response = []\<rparr>))))))"

definition handleFinancialQueryWithLLM ::
  "env \<Rightarrow> string \<Rightarrow> string option \<Rightarrow> world \<Rightarrow> (error + classification) \<times> world" where
  "handleFinancialQueryWithLLM e message userLanguage w =
     (case generateContent e (ClassifyPrompt message userLanguage) w of
        (Inl err, w1) \<Rightarrow> (Inr unknownIntent, w1)
      | (Inr raw, w1) \<Rightarrow>
          (case parseClassification e (trim raw) of
             Inr (Some c) \<Rightarrow> (Inr c, w1)
           | Inr None \<Rightarrow> (Inr unknownIntent, w1)
           | Inl parseError \<Rightarrow> (Inr unknownIntent, w1)))"

subsection \<open>Responses\<close>

text \<open>The object \<open>data\<close> of a successful response; a property that is not set is \<open>None\<close>.\<close>

record response_data =
  rd_message :: string
  rd_type :: "string option"
  rd_isDuplicate :: "bool option"
  rd_requiresConfirmation :: "bool option"
  rd_suggestions :: "string list option"
  rd_fileInfo :: "file_meta option"
  rd_transactionAdded :: "bool option"

text \<open>
  The three shapes of a JSON body: \<open>{error}\<close>, \<open>{success: false, error}\<close> and
  \<open>{success: true, data}\<close>.
\<close>

datatype response_body = ErrorBody string | FailureBody string | DataBody response_data

record http_response =
  status :: nat
  body :: response_body

definition dataOf :: "string \<Rightarrow> response_data" where
  "dataOf m = \<lparr>rd_message = m, rd_type = None, rd_isDuplicate = None,
     rd_requiresConfirmation = None, rd_suggestions = None, rd_fileInfo = None,
     rd_transactionAdded = None\<rparr>"

definition json_ok :: "response_data \<Rightarrow> http_response" where
  "json_ok d = \<lparr>status = 200, body = DataBody d\<rparr>"

subsection \<open>Preview phase: \<open>type === "csv_import"\<close>\<close>

text \<open>\<open>new Date(t).toISOString()\<close> throws a \<open>RangeError\<close> outside the range of a date.\<close>

definition validTime :: "int \<Rightarrow> bool" where
  "validTime t = (\<bar>t\<bar> \<le> 8640000000000000)"

text \<open>
  The template literal \<open>duplicatePrompt\<close> of the analysis: \<open>fileInfo.name\<close> throws when
  \<open>fileInfo\<close> is absent.
\<close>

definition duplicateAnalysisPrompt :: "file_meta option \<Rightarrow> file_meta \<Rightarrow> error + prompt" where
  "duplicateAnalysisPrompt fileInfo previousFile =
     (case fileInfo of
        None \<Rightarrow> Inl (Error ''TypeError'')
      | Some fi \<Rightarrow>
          if validTime (fm_lastModified fi) \<and> validTime (fm_lastModified previousFile)
          then Inr (DuplicateAnalysisPrompt fi previousFile)
          else Inl (Error ''RangeError''))"

text \<open>
  Lines 176 to 211: \<open>duplicateAnalysis\<close> stays empty without a previous file and when the
  model call fails.
\<close>

definition analyzeDuplicate ::
  "env \<Rightarrow> file_meta option \<Rightarrow> file_meta option \<Rightarrow> world \<Rightarrow> (error + string) \<times> world" where
  "analyzeDuplicate e fileInfo previousFile w =
     (case previousFile of
        None \<Rightarrow> (Inr [], w)
      | Some prev \<Rightarrow>
          (case duplicateAnalysisPrompt fileInfo prev of
             Inl err \<Rightarrow> (Inl err, w)
           | Inr p \<Rightarrow>
               (case generateContent e p w of
                  (Inl err, w1) \<Rightarrow> (Inr [], w1)
                | (Inr text, w1) \<Rightarrow> (Inr text, w1))))"

text \<open>\<open>duplicateAnalysis.replace(/^DUPLICATE:\s*/i, '').trim()\<close>\<close>

definition aiExplanationOf :: "string \<Rightarrow> string" where
  "aiExplanationOf duplicateAnalysis =
     trim (case strip_prefix_ci ''DUPLICATE:'' duplicateAnalysis of
             Some r \<Rightarrow> dropWhile is_space r
           | None \<Rightarrow> duplicateAnalysis)"

definition fallbackMessage :: "file_meta \<Rightarrow> string \<Rightarrow> string" where
  "fallbackMessage fi aiExplanation =
     '' **Duplicate File Detected**'' @ nl @ nl @ aiExplanation @ nl @ nl @
     ''**File Details:**'' @ nl @
     ''- Name: '' @ fm_name fi @ nl @
     ''- Size: '' @ show_nat (fm_size fi) @ '' bytes'' @ nl @
     ''- Type: '' @ fm_type fi @ nl @ nl @
     ''**Recommendation:** Please select a different file or wait a moment before uploading the same file again to avoid duplicate transactions.''"

definition duplicateData :: "string \<Rightarrow> response_data" where
  "duplicateData m = (dataOf m)\<lparr>rd_type := Some ''duplicate_detected'', rd_isDuplicate := Some True\<rparr>"

text \<open>Lines 214 to 266, the branch of a detected duplicate.\<close>

definition duplicateDetected ::
  "env \<Rightarrow> file_meta option \<Rightarrow> string \<Rightarrow> world \<Rightarrow> (error + http_response) \<times> world" where
  "duplicateDetected e fileInfo duplicateAnalysis w =
     (let aiExplanation = aiExplanationOf duplicateAnalysis
      in case fileInfo of
           None \<Rightarrow> (Inl (Error ''TypeError''), w)
         | Some fi \<Rightarrow>
             (case generateContent e (DuplicateMessagePrompt fi aiExplanation) w of
                (Inr duplicateMessage, w1) \<Rightarrow> (Inr (json_ok (duplicateData duplicateMessage)), w1)
              | (Inl err, w1) \<Rightarrow>
                  (Inr (json_ok (duplicateData (fallbackMessage fi aiExplanation))), w1)))"

definition previewMarker :: string where
  "previewMarker = ''Please analyze and import this spreadsheet file data:'' @ nl @ nl"

definition confirmationMessage :: "string \<Rightarrow> string" where
  "confirmationMessage preview =
     '' **Spreadsheet Analysis Complete**'' @ nl @ nl @ preview @ nl @ nl @
     ''Would you like me to import these transactions to your account?'' @ nl @ nl @
     ''**Click \"Confirm\" to import or \"Cancel\" to abort.**''"

definition previewData :: "string \<Rightarrow> file_meta option \<Rightarrow> response_data" where
  "previewData m fileInfo = (dataOf m)\<lparr>rd_type := Some ''csv_preview'',
     rd_requiresConfirmation := Some True,
     rd_suggestions := Some [''Confirm Import'', ''Cancel Import''],
     rd_fileInfo := fileInfo\<rparr>"

text \<open>The \<open>try\<close> block of lines 151 to 288.\<close>

definition csvImportTry :: "env \<Rightarrow> string \<Rightarrow> world \<Rightarrow> (error + http_response) \<times> world" where
  "csvImportTry e message w =
     (case requestJson e w of
        (Inl err, w1) \<Rightarrow> (Inl err, w1)
      | (Inr rb, w1) \<Rightarrow>
          (case find_sub previewMarker message of
             None \<Rightarrow>
               (Inr \<lparr>status = 400, body = FailureBody ''Invalid CSV import request format''\<rparr>, w1)
           | Some (before, csvText) \<Rightarrow>
               (case analyzeDuplicate e (rb_fileInfo rb) (rb_previousFile rb) w1 of
                  (Inl err, w2) \<Rightarrow> (Inl err, w2)
                | (Inr duplicateAnalysis, w2) \<Rightarrow>
                    if includes_str duplicateAnalysis ''DUPLICATE''
                    then duplicateDetected e (rb_fileInfo rb) duplicateAnalysis w2
                    else
                      (case parseCSVWithGemini e csvText w2 of
                         (Inl err, w3) \<Rightarrow> (Inl err, w3)
                       | (Inr result, w3) \<Rightarrow>
                           (Inr (json_ok (previewData (confirmationMessage (cr_preview result))
                                            (rb_fileInfo rb))), w3)))))"

definition csvImport :: "env \<Rightarrow> string \<Rightarrow> world \<Rightarrow> http_response \<times> world" where
  "csvImport e message w =
     (case csvImportTry e message w of
        (Inr r, w1) \<Rightarrow> (r, w1)
      | (Inl err, w1) \<Rightarrow> (\<lparr>status = 500, body = FailureBody ''CSV import failed''\<rparr>, w1))"

subsection \<open>Confirm phase: \<open>type === "csv_import_confirm"\<close>\<close>

text \<open>Division of two numbers; \<open>None\<close> stands for the \<open>NaN\<close> or infinity of a zero divisor.\<close>

definition js_div :: "real \<Rightarrow> real \<Rightarrow> real option" where
  "js_div a b = (if b = 0 then None else Some (a / b))"

definition csvCurrency :: string where
  "csvCurrency = ''USD''"

text \<open>
  Lines 335 to 365: \<open>finalAmount\<close>, \<open>finalCurrency\<close> and \<open>conversionRate\<close> of a row.
\<close>

definition convertRow ::
  "env \<Rightarrow> string \<Rightarrow> csv_row \<Rightarrow> world \<Rightarrow> (real \<times> string \<times> real option) \<times> world" where
  "convertRow e defaultCurrency transaction w =
     (if csvCurrency \<noteq> defaultCurrency
      then (case convertAmount e \<bar>row_amount transaction\<bar> csvCurrency defaultCurrency w of
              (Inr converted, w1) \<Rightarrow>
                ((if row_amount transaction < 0 then - converted else converted,
                  defaultCurrency,
                  js_div converted \<bar>row_amount transaction\<bar>), w1)
            | (Inl conversionError, w1) \<Rightarrow> ((row_amount transaction, csvCurrency, Some 1), w1))
      else ((row_amount transaction, csvCurrency, Some 1), w))"

text \<open>Lines 368 to 380, the record \<open>newTransaction\<close>.\<close>

definition newTransaction :: "csv_row \<Rightarrow> real \<times> string \<times> real option \<Rightarrow> new_transaction" where
  "newTransaction transaction final =
     (case final of (finalAmount, finalCurrency, conversionRate) \<Rightarrow>
        \<lparr>nt_description = row_description transaction,
         nt_originalAmount = \<bar>row_amount transaction\<bar>,
         nt_originalCurrency = csvCurrency,
         nt_convertedAmount = finalAmount,
         nt_convertedCurrency = finalCurrency,
         nt_conversionRate = conversionRate,
         nt_conversionFee = 0,
         nt_category = row_category transaction,
         nt_date = row_date transaction,
         nt_type = row_type transaction,
         nt_vendor = or_else (row_vendor transaction) ''CSV Import''\<rparr>)"

text \<open>Lines 382 to 389, the argument of \<open>createTransaction\<close>.\<close>

definition createInputOf :: "new_transaction \<Rightarrow> create_input" where
  "createInputOf nt =
     \<lparr>ci_amount = nt_originalAmount nt,
      ci_currency = nt_originalCurrency nt,
      ci_description = nt_description nt,
      ci_category = nt_category nt,
      ci_type = None,
      ci_date = nt_date nt,
      ci_vendor = nt_vendor nt\<rparr>"

text \<open>The \<open>try\<close> block of one row, lines 331 to 390.\<close>

definition importRowTry ::
  "env \<Rightarrow> user_id \<Rightarrow> string \<Rightarrow> csv_row \<Rightarrow> world \<Rightarrow> (error + unit) \<times> world" where
  "importRowTry e userId defaultCurrency transaction w =
     (case convertRow e defaultCurrency transaction w of
        (final, w1) \<Rightarrow>
          createTransaction e userId (createInputOf (newTransaction transaction final)) w1)"

text \<open>
  The loop of lines 330 to 404 with its two counters \<open>importedCount\<close> and
  \<open>failedCount\<close>.
\<close>

fun importLoop ::
  "env \<Rightarrow> user_id \<Rightarrow> string \<Rightarrow> csv_row list \<Rightarrow> nat \<times> nat \<Rightarrow> world \<Rightarrow> (nat \<times> nat) \<times> world" where
  "importLoop e userId defaultCurrency [] counts w = (counts, w)"
| "importLoop e userId defaultCurrency (transaction # rest) counts w =
     (case counts of (importedCount, failedCount) \<Rightarrow>
        (case importRowTry e userId defaultCurrency transaction w of
           (Inr u, w1) \<Rightarrow>
             importLoop e userId defaultCurrency rest (importedCount + 1, failedCount) w1
         | (Inl transactionError, w1) \<Rightarrow>
             importLoop e userId defaultCurrency rest (importedCount, failedCount + 1) w1))"

definition successMessage :: "nat \<Rightarrow> nat \<Rightarrow> string" where
  "successMessage importedCount failedCount =
     '' **Spreadsheet Import Complete**'' @ nl @ nl @
     ''Successfully imported **'' @ show_nat importedCount @ ''** transactions'' @
     (if failedCount > 0
      then nl @ '' Failed to import '' @ show_nat failedCount @ '' transactions''
      else []) @
     nl @ nl @
     ''Your transactions have been added to your account. You can view them in the dashboard.''"

definition confirmMarker :: string where
  "confirmMarker = ''Process CSV import: ''"

text \<open>The \<open>try\<close> block of lines 303 to 424.\<close>

definition csvImportConfirmTry ::
  "env \<Rightarrow> string \<Rightarrow> world \<Rightarrow> (error + http_response) \<times> world" where
  "csvImportConfirmTry e message w =
     (case find_sub confirmMarker message of
        None \<Rightarrow>
          (Inr \<lparr>status = 400, body = FailureBody ''Invalid CSV import confirmation format''\<rparr>, w)
      | Some (before, csvText) \<Rightarrow>
          (case parseCSVWithGemini e csvText w of
             (Inl err, w1) \<Rightarrow> (Inl err, w1)
           | (Inr result, w1) \<Rightarrow>
               (case getServices e w1 of
                  (Inl err, w2) \<Rightarrow> (Inl err, w2)
                | (Inr userId, w2) \<Rightarrow>
                    (case findById e userId w2 of
                       (Inl err, w3) \<Rightarrow> (Inl err, w3)
                     | (Inr profile, w3) \<Rightarrow>
                         (case importLoop e userId (defaultCurrencyOf profile)
                                 (cr_transactions result) (0, 0) w3 of
                            ((importedCount, failedCount), w4) \<Rightarrow>
                              (Inr (json_ok ((dataOf (successMessage importedCount failedCount))
                                       \<lparr>rd_type := Some ''csv_success''\<rparr>)), w4))))))"

definition errorMessageOf :: "error \<Rightarrow> string" where
  "errorMessageOf err = (case err of Error m \<Rightarrow> m | NonError \<Rightarrow> ''Unknown error'')"

definition csvImportConfirm :: "env \<Rightarrow> string \<Rightarrow> world \<Rightarrow> http_response \<times> world" where
  "csvImportConfirm e message w =
     (case csvImportConfirmTry e message w of
        (Inr r, w1) \<Rightarrow> (r, w1)
      | (Inl err, w1) \<Rightarrow>
          (\<lparr>status = 500, body = FailureBody (''CSV import failed: '' @ errorMessageOf err)\<rparr>, w1))"

subsection \<open>Default path\<close>

text \<open>\<open>t.amount || 0\<close>\<close>

definition amountOr0 :: "stored_transaction \<Rightarrow> real" where
  "amountOr0 t = (case st_amount t of None \<Rightarrow> 0 | Some a \<Rightarrow> a)"

definition incomeOf :: "stored_transaction list \<Rightarrow> real" where
  "incomeOf transactions = sum_list (map amountOr0 (filter (\<lambda>t. amountOr0 t > 0) transactions))"

definition expensesOf :: "stored_transaction list \<Rightarrow> real" where
  "expensesOf transactions =
     \<bar>sum_list (map amountOr0 (filter (\<lambda>t. amountOr0 t < 0) transactions))\<bar>"

text \<open>
  Lines 469 to 506: \<open>transactionInfo\<close> stays \<open>null\<close> when the parser throws, when the
  amount is \<open>undefined\<close> and when the description is absent or empty.
\<close>

definition extractTransactionInfo ::
  "env \<Rightarrow> string \<Rightarrow> world \<Rightarrow> transaction_info option \<times> world" where
  "extractTransactionInfo e message w =
     (case parseTransactionText e message w of
        (Inl parseError, w1) \<Rightarrow> (None, w1)
      | (Inr parsedTransaction, w1) \<Rightarrow>
          (case (pt_amount parsedTransaction, pt_description parsedTransaction) of
             (Some amount, Some description) \<Rightarrow>
               if description \<noteq> []
               then (Some \<lparr>ti_description = description,
                           ti_amount = amount,
                           ti_currency = pt_currency parsedTransaction,
                           ti_category = or_else (pt_category parsedTransaction) ''Other'',
                           ti_type = or_else (pt_type parsedTransaction)
                                       (if amount > 0 then ''income'' else ''expense''),
                           ti_date = pt_date parsedTransaction,
                           ti_vendor = pt_vendor parsedTransaction\<rparr>, w1)
               else (None, w1)
           | _ \<Rightarrow> (None, w1)))"

text \<open>
  Lines 516 to 550: \<open>finalAmount\<close>, \<open>finalCurrency\<close> and \<open>conversionRate\<close> of an entry.
\<close>

definition convertEntry ::
  "env \<Rightarrow> string \<Rightarrow> transaction_info \<Rightarrow> world \<Rightarrow> (real \<times> string \<times> real option) \<times> world" where
  "convertEntry e defaultCurrency transactionInfo w =
     (let transactionCurrency = or_else (ti_currency transactionInfo) defaultCurrency
      in if transactionCurrency \<noteq> defaultCurrency
         then (case convertAmount e (ti_amount transactionInfo) transactionCurrency
                      defaultCurrency w of
                 (Inr converted, w1) \<Rightarrow>
                   ((converted, defaultCurrency, js_div converted (ti_amount transactionInfo)), w1)
               | (Inl conversionError, w1) \<Rightarrow>
                   ((ti_amount transactionInfo, transactionCurrency, Some 1), w1))
         else ((ti_amount transactionInfo, transactionCurrency, Some 1), w))"

text \<open>Lines 554 to 562, the argument of \<open>createTransaction\<close>.\<close>

definition entryInputOf :: "transaction_info \<Rightarrow> string \<Rightarrow> create_input" where
  "entryInputOf transactionInfo transactionCurrency =
     \<lparr>ci_amount = ti_amount transactionInfo,
      ci_currency = transactionCurrency,
      ci_description = ti_description transactionInfo,
      ci_category = ti_category transactionInfo,
      ci_type = Some (ti_type transactionInfo),
      ci_date = ti_date transactionInfo,
      ci_vendor = or_else (ti_vendor transactionInfo) ''Unknown''\<rparr>"

text \<open>
  The \<open>try\<close> block of lines 510 to 600.  The second component is \<open>transactionAdded\<close>,
  which is set before the success message is composed.
\<close>

definition addTransactionTry ::
  "env \<Rightarrow> string \<Rightarrow> snapshot \<Rightarrow> user_id \<Rightarrow> transaction_info \<Rightarrow> world \<Rightarrow>
     ((error + string) \<times> bool) \<times> world" where
  "addTransactionTry e message snap userId transactionInfo w =
     (case findById e userId w of
        (Inl err, w1) \<Rightarrow> ((Inl err, False), w1)
      | (Inr profile, w1) \<Rightarrow>
          (let defaultCurrency = defaultCurrencyOf profile;
               transactionCurrency = or_else (ti_currency transactionInfo) defaultCurrency
           in case convertEntry e defaultCurrency transactionInfo w1 of
                (final, w2) \<Rightarrow>
                  (case createTransaction e userId
                          (entryInputOf transactionInfo transactionCurrency) w2 of
                     (Inl err, w3) \<Rightarrow> ((Inl err, False), w3)
                   | (Inr u, w3) \<Rightarrow>
                       (case env_formatWithSymbol e \<bar>ti_amount transactionInfo\<bar>
                               transactionCurrency of
                          Inl err \<Rightarrow> ((Inl err, True), w3)
                        | Inr originalAmountStr \<Rightarrow>
                            (case generateContent e
                                    (TransactionSuccessPrompt
                                       (snap\<lparr>sn_transactionCount := sn_transactionCount snap + 1,
                                              sn_defaultCurrency := defaultCurrency\<rparr>)
                                       message transactionInfo originalAmountStr) w3 of
                               (Inl err, w4) \<Rightarrow> ((Inl err, True), w4)
                             | (Inr text, w4) \<Rightarrow> ((Inr text, True), w4))))))"

definition fixedErrorMessage :: string where
  "fixedErrorMessage = ''Sorry, there was an error adding the transaction. Please try again.''"

text \<open>
  Lines 508 to 640 for a detected transaction: \<open>responseText\<close> and \<open>transactionAdded\<close>
  after the \<open>try\<close> and its \<open>catch\<close>.
\<close>

definition addTransaction ::
  "env \<Rightarrow> string \<Rightarrow> snapshot \<Rightarrow> user_id \<Rightarrow> transaction_info \<Rightarrow> world \<Rightarrow>
     (string \<times> bool) \<times> world" where
  "addTransaction e message snap userId transactionInfo w =
     (case addTransactionTry e message snap userId transactionInfo w of
        ((Inr text, transactionAdded), w1) \<Rightarrow> ((text, transactionAdded), w1)
      | ((Inl transactionError, transactionAdded), w1) \<Rightarrow>
          (case generateContent e (TransactionErrorPrompt snap message) w1 of
             (Inr text, w2) \<Rightarrow> ((text, transactionAdded), w2)
           | (Inl err, w2) \<Rightarrow> ((fixedErrorMessage, transactionAdded), w2)))"

definition chatData :: "string \<Rightarrow> bool \<Rightarrow> response_data" where
  "chatData m transactionAdded = (dataOf m)\<lparr>rd_transactionAdded := Some transactionAdded\<rparr>"

text \<open>
  Lines 685 to 710, entered when the classification is financial: \<open>Some\<close> is the response
  that is returned at once, \<open>None\<close> falls through.
\<close>

definition financialAnswer ::
  "env \<Rightarrow> user_id \<Rightarrow> string \<Rightarrow> world \<Rightarrow> http_response option \<times> world" where
  "financialAnswer e userId message w =
     (case detectLanguage e message w of
        (Inl err, w1) \<Rightarrow> (None, w1)
      | (Inr code, w1) \<Rightarrow>
          (case answerFinancialQuestion e userId message code w1 of
             (Inl err, w2) \<Rightarrow> (None, w2)
           | (Inr answer, w2) \<Rightarrow> (Some (json_ok (chatData answer False)), w2)))"

text \<open>
  Lines 643 to 719 when \<open>transactionAdded\<close> is false: the general response, then the
  classification of the intent.
\<close>

definition generalOrFinancial ::
  "env \<Rightarrow> string \<Rightarrow> snapshot \<Rightarrow> user_id \<Rightarrow> world \<Rightarrow> (error + http_response) \<times> world" where
  "generalOrFinancial e message snap userId w =
     (case generateContent e (GeneralPrompt snap message) w of
        (Inl err, w1) \<Rightarrow> (Inl err, w1)
      | (Inr responseText, w1) \<Rightarrow>
          (case detectLanguage e message w1 of
             (Inl err, w2) \<Rightarrow> (Inl err, w2)
           | (Inr code, w2) \<Rightarrow>
               (case handleFinancialQueryWithLLM e message (Some code) w2 of
                  (Inl err, w3) \<Rightarrow> (Inl err, w3)
                | (Inr queryAnalysis, w3) \<Rightarrow>
                    if isFinancial queryAnalysis
                    then (case financialAnswer e userId message w3 of
                            (Some r, w4) \<Rightarrow> (Inr r, w4)
                          | (None, w4) \<Rightarrow> (Inr (json_ok (chatData responseText False)), w4))
                    else (Inr (json_ok (chatData responseText False)), w3))))"

text \<open>
  Lines 445 to 462: the three formatted figures.  A formatter that throws ends the
  \<open>try\<close> block.
\<close>

definition snapshotOf :: "env \<Rightarrow> stored_transaction list \<Rightarrow> string \<Rightarrow> error + snapshot" where
  "snapshotOf e transactions defaultCurrency =
     (let income = incomeOf transactions;
          expenses = expensesOf transactions;
          totalBalance = income - expenses
      in case env_format e totalBalance defaultCurrency of
           Inl err \<Rightarrow> Inl err
         | Inr formattedBalance \<Rightarrow>
             (case env_format e income defaultCurrency of
                Inl err \<Rightarrow> Inl err
              | Inr formattedIncome \<Rightarrow>
                  (case env_format e expenses defaultCurrency of
                     Inl err \<Rightarrow> Inl err
                   | Inr formattedExpenses \<Rightarrow>
                       Inr \<lparr>sn_balance = formattedBalance,
                            sn_income = formattedIncome,
                            sn_expenses = formattedExpenses,
                            sn_transactionCount = length transactions,
                            sn_defaultCurrency = defaultCurrency\<rparr>)))"

text \<open>Lines 465 to 719: the entry, and the other responses when no entry was added.\<close>

definition entryOrChat ::
  "env \<Rightarrow> string \<Rightarrow> snapshot \<Rightarrow> user_id \<Rightarrow> world \<Rightarrow> (error + http_response) \<times> world" where
  "entryOrChat e message snap userId w =
     (case extractTransactionInfo e message w of
        (None, w1) \<Rightarrow> generalOrFinancial e message snap userId w1
      | (Some transactionInfo, w1) \<Rightarrow>
          (case addTransaction e message snap userId transactionInfo w1 of
             ((responseText, transactionAdded), w2) \<Rightarrow>
               if transactionAdded
               then (Inr (json_ok (chatData responseText transactionAdded)), w2)
               else generalOrFinancial e message snap userId w2))"

text \<open>The \<open>try\<close> block of lines 441 to 719.\<close>

definition defaultTry :: "env \<Rightarrow> string \<Rightarrow> world \<Rightarrow> (error + http_response) \<times> world" where
  "defaultTry e message w =
     (case getServices e w of
        (Inl err, w1) \<Rightarrow> (Inl err, w1)
      | (Inr userId, w1) \<Rightarrow>
          (case getTransactions e userId 1000 w1 of
             (Inl err, w2) \<Rightarrow> (Inl err, w2)
           | (Inr transactions, w2) \<Rightarrow>
               (case findById e userId w2 of
                  (Inl err, w3) \<Rightarrow> (Inl err, w3)
                | (Inr profile, w3) \<Rightarrow>
                    (case snapshotOf e transactions (defaultCurrencyOf profile) of
                       Inl err \<Rightarrow> (Inl err, w3)
                     | Inr snap \<Rightarrow> entryOrChat e message snap userId w3))))"

text \<open>The \<open>catch (dbError)\<close> of lines 720 to 739.\<close>

definition dbFallback :: "env \<Rightarrow> string \<Rightarrow> world \<Rightarrow> (error + http_response) \<times> world" where
  "dbFallback e message w =
     (case generateContent e (FallbackPrompt message) w of
        (Inl err, w1) \<Rightarrow> (Inl err, w1)
      | (Inr text, w1) \<Rightarrow> (Inr (json_ok (dataOf text)), w1))"

definition defaultPath :: "env \<Rightarrow> string \<Rightarrow> world \<Rightarrow> (error + http_response) \<times> world" where
  "defaultPath e message w =
     (case defaultTry e message w of
        (Inr r, w1) \<Rightarrow> (Inr r, w1)
      | (Inl dbError, w1) \<Rightarrow> dbFallback e message w1)"

subsection \<open>\<open>POST\<close>\<close>

definition POSTTry :: "env \<Rightarrow> world \<Rightarrow> (error + http_response) \<times> world" where
  "POSTTry e w =
     (case requestJson e w of
        (Inl err, w1) \<Rightarrow> (Inl err, w1)
      | (Inr rb, w1) \<Rightarrow>
          (case rb_message rb of
             None \<Rightarrow> (Inr \<lparr>status = 400, body = ErrorBody ''Message is required''\<rparr>, w1)
           | Some message \<Rightarrow>
               if message = []
               then (Inr \<lparr>status = 400, body = ErrorBody ''Message is required''\<rparr>, w1)
               else if \<not> truthy (env_GEMINI_API_KEY e)
               then (Inr \<lparr>status = 500, body = ErrorBody
                       ''AI service not configured. Please set GEMINI_API_KEY environment variable.''\<rparr>, w1)
               else if rb_type rb = Some ''csv_import''
               then (case csvImport e message w1 of (r, w2) \<Rightarrow> (Inr r, w2))
               else if rb_type rb = Some ''csv_import_confirm''
               then (case csvImportConfirm e message w1 of (r, w2) \<Rightarrow> (Inr r, w2))
               else defaultPath e message w1))"

definition POST :: "env \<Rightarrow> world \<Rightarrow> http_response \<times> world" where
  "POST e w =
     (case POSTTry e w of
        (Inr r, w1) \<Rightarrow> (r, w1)
      | (Inl err, w1) \<Rightarrow>
          (\<lparr>status = 500,
            body = FailureBody ''Failed to process chat message. Please try again.''\<rparr>, w1))"

section \<open>Predicates of the properties and sample environments\<close>

fun hasBooleanField :: "json \<Rightarrow> string \<Rightarrow> bool" where
  "hasBooleanField (JObj kvs) k = (case map_of kvs k of Some (JBool b) \<Rightarrow> True | _ \<Rightarrow> False)"
| "hasBooleanField j k = False"

fun hasStringField :: "json \<Rightarrow> string \<Rightarrow> bool" where
  "hasStringField (JObj kvs) k = (case map_of kvs k of Some (JStr s) \<Rightarrow> True | _ \<Rightarrow> False)"
| "hasStringField j k = False"

text \<open>
  The outputs that the classifier cannot use: the model call throws, or its text, the
  code fence stripped, is not valid JSON, or the parsed value lacks a boolean
  \<open>isFinancial\<close> or a string \<open>intent\<close>.
\<close>

definition unusableModelOutput :: "env \<Rightarrow> string \<Rightarrow> string option \<Rightarrow> world \<Rightarrow> bool" where
  "unusableModelOutput e m l w =
     (case env_generateContent e (calls w) (ClassifyPrompt m l) of
        Inl err \<Rightarrow> True
      | Inr raw \<Rightarrow>
          (case env_JSON_parse e (jsonTextOf (trim raw)) of
             Inl err \<Rightarrow> True
           | Inr parsed \<Rightarrow>
               \<not> (hasBooleanField parsed ''isFinancial'' \<and> hasStringField parsed ''intent'')))"

text \<open>An environment in which every collaborator fails, and the empty world.\<close>

definition envDown :: env where
  "envDown = \<lparr>
     env_GEMINI_API_KEY = Some ''key'',
     env_requestJson = (\<lambda>cs. Inl NonError),
     env_generateContent = (\<lambda>cs p. Inl NonError),
     env_parseCSVWithGemini = (\<lambda>cs t. Inl NonError),
     env_getServices = (\<lambda>cs. Inl NonError),
     env_findById = (\<lambda>cs u. Inl NonError),
     env_getTransactions = (\<lambda>cs u n. Inl NonError),
     env_convertAmount = (\<lambda>cs a f t. Inl NonError),
     env_createTransaction = (\<lambda>cs u i. Some NonError),
     env_parseTransactionText = (\<lambda>cs m. Inl NonError),
     env_detectLanguage = (\<lambda>cs m. Inl NonError),
     env_answerFinancialQuestion = (\<lambda>cs u m l. Inl NonError),
     env_JSON_parse = (\<lambda>t. Inl (Error ''SyntaxError'')),
     env_format = (\<lambda>a c. Inl NonError),
     env_formatWithSymbol = (\<lambda>a c. Inl NonError)\<rparr>"

definition world0 :: world where
  "world0 = \<lparr>ledger = [], calls = []\<rparr>"

text \<open>The calls of \<open>createTransaction\<close> in a log, and their arguments.\<close>

fun isCreateTransaction :: "call \<Rightarrow> bool" where
  "isCreateTransaction (CreateTransaction u i) = True"
| "isCreateTransaction c = False"

fun createInputs :: "call list \<Rightarrow> create_input list" where
  "createInputs [] = []"
| "createInputs (CreateTransaction u i # cs) = i # createInputs cs"
| "createInputs (c # cs) = createInputs cs"

text \<open>
  Nothing was persisted between two worlds: the ledger is the same and no call of
  \<open>createTransaction\<close> was logged.
\<close>

definition noPersist :: "world \<Rightarrow> world \<Rightarrow> bool" where
  "noPersist w w' =
     (ledger w' = ledger w \<and>
      filter isCreateTransaction (calls w') = filter isCreateTransaction (calls w))"

text \<open>A request whose body is read and has the mode \<open>csv_import\<close>.\<close>

definition previewRequest :: "env \<Rightarrow> world \<Rightarrow> bool" where
  "previewRequest e w =
     (case env_requestJson e (calls w) of
        Inl err \<Rightarrow> False
      | Inr rb \<Rightarrow> rb_type rb = Some ''csv_import'')"

text \<open>
  A preview request for a file with a previous upload, where the model answers every
  prompt with \<open>NEW_FILE\<close>.
\<close>

definition sampleFile :: file_meta where
  "sampleFile = \<lparr>fm_name = ''may.csv'', fm_size = 120, fm_type = ''text/csv'',
     fm_lastModified = 1700000000000\<rparr>"

definition previewEnv :: env where
  "previewEnv = envDown\<lparr>
     env_requestJson := (\<lambda>cs. Inr \<lparr>rb_message = Some (previewMarker @ ''date,amount''),
        rb_type = Some ''csv_import'', rb_fileInfo = Some sampleFile,
        rb_previousFile = Some (sampleFile\<lparr>fm_name := ''april.csv''\<rparr>)\<rparr>),
     env_generateContent := (\<lambda>cs p. Inr ''NEW_FILE: another month''),
     env_parseCSVWithGemini :=
       (\<lambda>cs t. Inr \<lparr>cr_transactions = [], cr_preview = ''no rows''\<rparr>)\<rparr>"

text \<open>
  A confirm run over three rows for a user whose default currency is EUR: the ledger
  rejects the second row, the converter doubles an amount.
\<close>

definition sampleRows :: "csv_row list" where
  "sampleRows =
     [\<lparr>row_description = ''lunch'', row_amount = - 50, row_category = ''Food'',
       row_date = None, row_type = ''expense'', row_vendor = None\<rparr>,
      \<lparr>row_description = ''rejected'', row_amount = 7, row_category = ''Other'',
       row_date = None, row_type = ''income'', row_vendor = None\<rparr>,
      \<lparr>row_description = ''salary'', row_amount = 2000, row_category = ''Income'',
       row_date = None, row_type = ''income'', row_vendor = Some ''ACME''\<rparr>]"

definition importEnv :: env where
  "importEnv = envDown\<lparr>
     env_parseCSVWithGemini :=
       (\<lambda>cs t. Inr \<lparr>cr_transactions = sampleRows, cr_preview = ''3 rows''\<rparr>),
     env_getServices := (\<lambda>cs. Inr ''user-1''),
     env_findById := (\<lambda>cs u. Inr (Some \<lparr>pr_defaultCurrency = Some ''EUR''\<rparr>)),
     env_convertAmount := (\<lambda>cs a f t. Inr (a * 2)),
     env_createTransaction :=
       (\<lambda>cs u i. if ci_description i = ''rejected'' then Some (Error ''invalid'') else None)\<rparr>"

text \<open>
  An expense of 50 USD as a row of the import and as an entry of the default path; a
  converter that doubles the amount it is given, and one that doubles its magnitude.
\<close>

definition expenseRow :: csv_row where
  "expenseRow = \<lparr>row_description = ''lunch'', row_amount = - 50, row_category = ''Food'',
       row_date = None, row_type = ''expense'', row_vendor = None\<rparr>"

definition expenseEntry :: transaction_info where
  "expenseEntry = \<lparr>ti_description = ''lunch'', ti_amount = - 50, ti_currency = Some ''USD'',
     ti_category = ''Food'', ti_type = ''expense'', ti_date = None, ti_vendor = None\<rparr>"

definition rateEnv :: env where
  "rateEnv = envDown\<lparr>env_convertAmount := (\<lambda>cs a f t. Inr (a * 2))\<rparr>"

definition magnitudeEnv :: env where
  "magnitudeEnv = envDown\<lparr>env_convertAmount := (\<lambda>cs a f t. Inr (\<bar>a\<bar> * 2))\<rparr>"

text \<open>
  A request that reaches the default path: the body is read, the message is a string
  that is not empty, the key is configured and the mode is neither of the two imports.
\<close>

definition defaultRequest :: "env \<Rightarrow> world \<Rightarrow> string \<Rightarrow> bool" where
  "defaultRequest e w message =
     (case env_requestJson e (calls w) of
        Inl err \<Rightarrow> False
      | Inr rb \<Rightarrow> rb_message rb = Some message \<and> message \<noteq> [] \<and>
                  truthy (env_GEMINI_API_KEY e) \<and>
                  rb_type rb \<noteq> Some ''csv_import'' \<and>
                  rb_type rb \<noteq> Some ''csv_import_confirm'')"




text \<open>
  The calls that classify the intent or ask the Q&A collaborator, and two worlds
  between which no such call was logged.
\<close>

fun isIntentCall :: "call \<Rightarrow> bool" where
  "isIntentCall (GenerateContent (ClassifyPrompt m l)) = True"
| "isIntentCall (AnswerFinancialQuestion u m l) = True"
| "isIntentCall c = False"

definition noIntent :: "world \<Rightarrow> world \<Rightarrow> bool" where
  "noIntent w w' = (filter isIntentCall (calls w') = filter isIntentCall (calls w))"

text \<open>
  A message that is an entry and a question, with every collaborator at work; the same
  environment with a message in which the parser finds no transaction.
\<close>

definition entryEnv :: env where
  "entryEnv = envDown\<lparr>
     env_requestJson := (\<lambda>cs. Inr \<lparr>rb_message = Some ''Spent $12 on lunch, what is left?'',
        rb_type = None, rb_fileInfo = None, rb_previousFile = None\<rparr>),
     env_getServices := (\<lambda>cs. Inr ''user-1''),
     env_getTransactions := (\<lambda>cs u n. Inr []),
     env_findById := (\<lambda>cs u. Inr None),
     env_format := (\<lambda>a c. Inr ''$0.00''),
     env_formatWithSymbol := (\<lambda>a c. Inr ''$12.00''),
     env_parseTransactionText := (\<lambda>cs m. Inr \<lparr>pt_amount = Some (- 12),
        pt_description = Some ''lunch'', pt_currency = None, pt_category = Some ''Food'',
        pt_type = Some ''expense'', pt_date = None, pt_vendor = None\<rparr>),
     env_createTransaction := (\<lambda>cs u i. None),
     env_detectLanguage := (\<lambda>cs m. Inr ''en''),
     env_answerFinancialQuestion := (\<lambda>cs u m l. Inr ''Your balance is $0.00.''),
     env_JSON_parse := (\<lambda>t. Inr (JObj [(''isFinancial'', JBool True),
        (''intent'', JStr ''balance_inquiry'')])),
     env_generateContent := (\<lambda>cs p. case p of
        TransactionSuccessPrompt s m ti a \<Rightarrow> Inr ''Added your $12 lunch.''
      | GeneralPrompt s m \<Rightarrow> Inr ''Happy to help.''
      | ClassifyPrompt m l \<Rightarrow> Inr ''{}''
      | _ \<Rightarrow> Inl NonError)\<rparr>"

definition questionEnv :: env where
  "questionEnv = entryEnv\<lparr>
     env_requestJson := (\<lambda>cs. Inr \<lparr>rb_message = Some ''What is my balance?'',
        rb_type = None, rb_fileInfo = None, rb_previousFile = None\<rparr>),
     env_parseTransactionText := (\<lambda>cs m. Inr \<lparr>pt_amount = None,
        pt_description = None, pt_currency = None, pt_category = None,
        pt_type = None, pt_date = None, pt_vendor = None\<rparr>)\<rparr>"

text \<open>
  An entry whose record the ledger refuses while the completion service works: it
  answers the error prompt with an apology and the general prompt with a reply of its
  own.
\<close>

definition persistFailsEnv :: env where
  "persistFailsEnv = envDown\<lparr>
     env_requestJson := (\<lambda>cs. Inr \<lparr>rb_message = Some ''Spent $12 on lunch'',
        rb_type = None, rb_fileInfo = None, rb_previousFile = None\<rparr>),
     env_getServices := (\<lambda>cs. Inr ''user-1''),
     env_getTransactions := (\<lambda>cs u n. Inr []),
     env_findById := (\<lambda>cs u. Inr None),
     env_format := (\<lambda>a c. Inr ''$0.00''),
     env_parseTransactionText := (\<lambda>cs m. Inr \<lparr>pt_amount = Some (- 12),
        pt_description = Some ''lunch'', pt_currency = None, pt_category = Some ''Food'',
        pt_type = Some ''expense'', pt_date = None, pt_vendor = None\<rparr>),
     env_detectLanguage := (\<lambda>cs m. Inr ''en''),
     env_generateContent := (\<lambda>cs p. case p of
        TransactionErrorPrompt s m \<Rightarrow> Inr ''Sorry, I could not save that. Please try again.''
      | GeneralPrompt s m \<Rightarrow> Inr ''Great! I have added your $12 lunch expense.''
      | _ \<Rightarrow> Inl NonError)\<rparr>"



text \<open>The confirm run of one expense row while the converter throws.\<close>

definition conversionDownEnv :: env where
  "conversionDownEnv =
     importEnv\<lparr>env_convertAmount := (\<lambda>cs a f t. Inl (Error ''rates unavailable''))\<rparr>"

section \<open>Properties\<close>

subsection \<open>The log and the ledger\<close>

lemma logged_simps [simp]:
  "calls (logged c w) = calls w @ [c]" "ledger (logged c w) = ledger w"
  by (simp_all add: logged_def)

subsection \<open>The classifier\<close>

lemma typeof_boolean_field:
  "get_prop j k = Inr f \<Longrightarrow> typeof_boolean f = Some b \<Longrightarrow> hasBooleanField j k"
  by (cases j; cases f) (auto split: json.splits elim: typeof_boolean.elims)

lemma typeof_string_field:
  "get_prop j k = Inr f \<Longrightarrow> typeof_string f = Some s \<Longrightarrow> hasStringField j k"
  by (cases j; cases f) (auto split: json.splits elim: typeof_string.elims)

lemma parseClassification_Some:
  assumes "parseClassification e t = Inr (Some c)"
  shows "\<exists>parsed. env_JSON_parse e (jsonTextOf t) = Inr parsed \<and>
           hasBooleanField parsed ''isFinancial'' \<and> hasStringField parsed ''intent''"
  using assms
  by (auto simp: parseClassification_def split: sum.splits option.splits
      intro: typeof_boolean_field typeof_string_field)

text \<open>
  C7: \<open>handleFinancialQueryWithLLM\<close> always returns a value, never an error; when the
  model call throws, when the model's text is not valid JSON after the optional code
  fence is stripped, and when \<open>isFinancial\<close> is not a boolean or \<open>intent\<close> not a string,
  the value is \<open>{isFinancial: false, intent: "unknown"}\<close>.
\<close>

theorem classifier_always_returns:
  "(\<exists>c. fst (handleFinancialQueryWithLLM e m l w) = Inr c) \<and>
   (unusableModelOutput e m l w \<longrightarrow>
      fst (handleFinancialQueryWithLLM e m l w) = Inr unknownIntent)"
proof
  show "\<exists>c. fst (handleFinancialQueryWithLLM e m l w) = Inr c"
    by (simp add: handleFinancialQueryWithLLM_def generateContent_def
        split: sum.splits option.splits)
next
  show "unusableModelOutput e m l w \<longrightarrow>
      fst (handleFinancialQueryWithLLM e m l w) = Inr unknownIntent"
  proof
    assume bad: "unusableModelOutput e m l w"
    show "fst (handleFinancialQueryWithLLM e m l w) = Inr unknownIntent"
    proof (cases "env_generateContent e (calls w) (ClassifyPrompt m l)")
      case (Inl err)
      then show ?thesis
        by (simp add: handleFinancialQueryWithLLM_def generateContent_def)
    next
      case (Inr raw)
      have "parseClassification e (trim raw) \<noteq> Inr (Some c)" for c
      proof
        assume "parseClassification e (trim raw) = Inr (Some c)"
        from parseClassification_Some [OF this] bad Inr show False
          by (auto simp: unusableModelOutput_def)
      qed
      with Inr show ?thesis
        by (simp add: handleFinancialQueryWithLLM_def generateContent_def
            split: sum.splits option.splits)
    qed
  qed
qed

theorem classifier_always_returns_witness:
  "unusableModelOutput (envDown\<lparr>env_generateContent := (\<lambda>cs p. Inr [])\<rparr>) ''hello'' None world0 \<and>
   fst (handleFinancialQueryWithLLM (envDown\<lparr>env_generateContent := (\<lambda>cs p. Inr [])\<rparr>)
          ''hello'' None world0) = Inr unknownIntent"
  using classifier_always_returns
    [of "envDown\<lparr>env_generateContent := (\<lambda>cs p. Inr [])\<rparr>" "''hello''" None world0]
  by (simp add: unusableModelOutput_def envDown_def)

subsection \<open>The preview phase persists nothing\<close>

lemma noPersist_refl [simp]: "noPersist w w"
  by (simp add: noPersist_def)

lemma noPersist_trans: "noPersist w w1 \<Longrightarrow> noPersist w1 w2 \<Longrightarrow> noPersist w w2"
  by (simp add: noPersist_def)

lemma noPersist_logged [simp]: "\<not> isCreateTransaction c \<Longrightarrow> noPersist w (logged c w)"
  by (simp add: noPersist_def)

lemma generateContent_noPersist:
  "generateContent e p w = (r, w') \<Longrightarrow> noPersist w w'"
  by (auto simp: generateContent_def)

lemma analyzeDuplicate_noPersist:
  "analyzeDuplicate e fi pf w = (r, w') \<Longrightarrow> noPersist w w'"
  by (auto simp: analyzeDuplicate_def split: option.splits sum.splits prod.splits
      dest: generateContent_noPersist)

lemma duplicateDetected_noPersist:
  "duplicateDetected e fi da w = (r, w') \<Longrightarrow> noPersist w w'"
  by (auto simp: duplicateDetected_def Let_def split: option.splits sum.splits prod.splits
      dest: generateContent_noPersist)

lemma parseCSVWithGemini_noPersist:
  "parseCSVWithGemini e t w = (r, w') \<Longrightarrow> noPersist w w'"
  by (auto simp: parseCSVWithGemini_def)

lemma requestJson_noPersist:
  "requestJson e w = (r, w') \<Longrightarrow> noPersist w w'"
  by (auto simp: requestJson_def)

lemma csvImportTry_noPersist:
  "csvImportTry e m w = (r, w') \<Longrightarrow> noPersist w w'"
  unfolding csvImportTry_def
  by (auto split: option.splits sum.splits prod.splits if_splits
      dest!: requestJson_noPersist analyzeDuplicate_noPersist duplicateDetected_noPersist
        parseCSVWithGemini_noPersist
      intro: noPersist_trans)

lemma csvImport_noPersist:
  "csvImport e m w = (r, w') \<Longrightarrow> noPersist w w'"
  by (auto simp: csvImport_def split: sum.splits prod.splits dest: csvImportTry_noPersist)

text \<open>
  C8: a request with the mode \<open>csv_import\<close> leaves the ledger as it was and makes no call
  of \<open>createTransaction\<close>, whatever the collaborators do and whichever response it ends
  with (a rejected request, a detected duplicate, a preview or a failure).
\<close>

theorem preview_never_persists:
  assumes "previewRequest e w"
  shows "noPersist w (snd (POST e w))"
proof -
  from assms obtain rb where rb: "env_requestJson e (calls w) = Inr rb"
    and t: "rb_type rb = Some ''csv_import''"
    by (auto simp: previewRequest_def split: sum.splits)
  have "noPersist (logged RequestJson w) (snd (POST e w))"
    using rb t
    by (auto simp: POST_def POSTTry_def requestJson_def split: prod.splits option.splits
        dest: csvImport_noPersist)
  then show ?thesis
    using noPersist_trans [of w "logged RequestJson w"] by simp
qed

theorem preview_never_persists_witness:
  "previewRequest previewEnv world0 \<and> noPersist world0 (snd (POST previewEnv world0))"
  using preview_never_persists [of previewEnv world0]
  by (simp add: previewRequest_def previewEnv_def envDown_def)

subsection \<open>The confirm phase\<close>

lemma createInputs_append: "createInputs (xs @ ys) = createInputs xs @ createInputs ys"
  by (induction xs rule: createInputs.induct) simp_all

lemma convertRow_createInputs:
  "convertRow e dc row w = (final, w') \<Longrightarrow>
     createInputs (calls w') = createInputs (calls w) \<and> ledger w' = ledger w"
  by (auto simp: convertRow_def convertAmount_def createInputs_append
      split: if_splits sum.splits)

lemma importRowTry_effect:
  assumes "importRowTry e u dc row w = (r, w')"
  shows "\<exists>i. createInputs (calls w') = createInputs (calls w) @ [i] \<and>
             ci_amount i = \<bar>row_amount row\<bar> \<and> ci_currency i = ''USD'' \<and>
             ci_description i = row_description row \<and>
             ledger w' = (if isl r then ledger w else ledger w @ [(u, i)])"
proof -
  obtain final w1 where c: "convertRow e dc row w = (final, w1)"
    by (cases "convertRow e dc row w")
  obtain fa fc fr where f: "final = (fa, fc, fr)" by (cases final)
  from convertRow_createInputs [OF c]
  have w1: "createInputs (calls w1) = createInputs (calls w)" "ledger w1 = ledger w"
    by simp_all
  from assms c have "createTransaction e u (createInputOf (newTransaction row final)) w1 = (r, w')"
    by (simp add: importRowTry_def)
  then show ?thesis using w1 f
    by (auto simp: createTransaction_def createInputs_append createInputOf_def
        newTransaction_def csvCurrency_def split: option.splits)
qed

lemma importLoop_effect:
  "importLoop e u dc rows (n, m) w = ((n', m'), w') \<Longrightarrow>
     n' + m' = n + m + length rows \<and>
     map (\<lambda>i. (ci_amount i, ci_currency i, ci_description i)) (createInputs (calls w')) =
       map (\<lambda>i. (ci_amount i, ci_currency i, ci_description i)) (createInputs (calls w)) @
       map (\<lambda>row. (\<bar>row_amount row\<bar>, ''USD'', row_description row)) rows \<and>
     (\<exists>added. ledger w' = ledger w @ added \<and> n' = n + length added \<and>
        list_all (\<lambda>(u, i). 0 \<le> ci_amount i \<and> ci_currency i = ''USD'') added)"
proof (induction rows arbitrary: n m w)
  case Nil
  then show ?case by simp
next
  case (Cons row rows)
  obtain r w1 where row: "importRowTry e u dc row w = (r, w1)"
    by (cases "importRowTry e u dc row w")
  from importRowTry_effect [OF row] obtain i where
    i: "createInputs (calls w1) = createInputs (calls w) @ [i]"
       "ci_amount i = \<bar>row_amount row\<bar>" "ci_currency i = ''USD''"
       "ci_description i = row_description row"
       "ledger w1 = (if isl r then ledger w else ledger w @ [(u, i)])"
    by blast
  show ?case
  proof (cases r)
    case (Inl err)
    with Cons.prems row have "importLoop e u dc rows (n, m + 1) w1 = ((n', m'), w')"
      by simp
    from Cons.IH [OF this] i Inl show ?thesis by simp
  next
    case (Inr x)
    with Cons.prems row have "importLoop e u dc rows (n + 1, m) w1 = ((n', m'), w')"
      by simp
    from Cons.IH [OF this] obtain added where
      a: "n' + m' = n + 1 + m + length rows"
         "map (\<lambda>i. (ci_amount i, ci_currency i, ci_description i)) (createInputs (calls w')) =
          map (\<lambda>i. (ci_amount i, ci_currency i, ci_description i)) (createInputs (calls w1)) @
          map (\<lambda>row. (\<bar>row_amount row\<bar>, ''USD'', row_description row)) rows"
         "ledger w' = ledger w1 @ added" "n' = n + 1 + length added"
         "list_all (\<lambda>(u, i). 0 \<le> ci_amount i \<and> ci_currency i = ''USD'') added"
      by blast
    have "ledger w' = ledger w @ ((u, i) # added)"
      using a(3) i(5) Inr by simp
    moreover have "n' = n + length ((u, i) # added)"
      using a(4) by simp
    moreover have
      "list_all (\<lambda>(u, i). 0 \<le> ci_amount i \<and> ci_currency i = ''USD'') ((u, i) # added)"
      using a(5) i(2,3) by simp
    ultimately have "\<exists>added. ledger w' = ledger w @ added \<and> n' = n + length added \<and>
        list_all (\<lambda>(u, i). 0 \<le> ci_amount i \<and> ci_currency i = ''USD'') added"
      by blast
    then show ?thesis using a(1,2) i(1-4) by simp
  qed
qed

text \<open>
  C2, as the specification states it, fails for a row that throws during the
  conversion: the exception is caught inside the row, the row is persisted with the
  amount it had, and it is counted as imported, not as failed.
\<close>

theorem confirm_counts_counterexample:
  "csvCurrency \<noteq> ''EUR'' \<and>
   fst (convertAmount conversionDownEnv \<bar>row_amount expenseRow\<bar> csvCurrency ''EUR'' world0) =
     Inl (Error ''rates unavailable'') \<and>
   fst (importLoop conversionDownEnv ''user-1'' ''EUR'' [expenseRow] (0, 0) world0) = (1, 0)"
  by (simp add: csvCurrency_def convertAmount_def conversionDownEnv_def importEnv_def envDown_def
      importRowTry_def convertRow_def createTransaction_def newTransaction_def createInputOf_def
      expenseRow_def)

text \<open>
  C2, amended: a confirm run whose payload carries the marker, whose text parses into
  rows and whose user and profile are found answers with the two counts, and
  \<open>importedCount + failedCount\<close> is the number of rows; \<open>importedCount\<close> is the number of
  records that the ledger took, so \<open>failedCount\<close> is the number of rows whose
  \<open>createTransaction\<close> threw; \<open>createTransaction\<close> is called once for every row, in the
  order of the rows, whether earlier rows failed or not.
\<close>

theorem confirm_counts_every_row:
  assumes "find_sub confirmMarker message = Some (before, csvText)"
    and "parseCSVWithGemini e csvText w = (Inr result, w1)"
    and "getServices e w1 = (Inr userId, w2)"
    and "findById e userId w2 = (Inr profile, w3)"
  shows "\<exists>importedCount failedCount w4.
           csvImportConfirm e message w =
             (json_ok ((dataOf (successMessage importedCount failedCount))
                \<lparr>rd_type := Some ''csv_success''\<rparr>), w4) \<and>
           importedCount + failedCount = length (cr_transactions result) \<and>
           length (ledger w4) = length (ledger w3) + importedCount \<and>
           map ci_description (createInputs (calls w4)) =
             map ci_description (createInputs (calls w3)) @
             map row_description (cr_transactions result)"
proof -
  obtain n m w4 where
    loop: "importLoop e userId (defaultCurrencyOf profile) (cr_transactions result) (0, 0) w3
             = ((n, m), w4)"
    by (metis surj_pair)
  from importLoop_effect [OF loop] obtain added where
    e: "n + m = length (cr_transactions result)"
       "map (\<lambda>i. (ci_amount i, ci_currency i, ci_description i)) (createInputs (calls w4)) =
        map (\<lambda>i. (ci_amount i, ci_currency i, ci_description i)) (createInputs (calls w3)) @
        map (\<lambda>row. (\<bar>row_amount row\<bar>, ''USD'', row_description row)) (cr_transactions result)"
       "ledger w4 = ledger w3 @ added" "n = length added"
    by auto
  from e(2) have "map (\<lambda>x. snd (snd x))
       (map (\<lambda>i. (ci_amount i, ci_currency i, ci_description i)) (createInputs (calls w4))) =
     map (\<lambda>x. snd (snd x))
       (map (\<lambda>i. (ci_amount i, ci_currency i, ci_description i)) (createInputs (calls w3)) @
        map (\<lambda>row. (\<bar>row_amount row\<bar>, ''USD'', row_description row)) (cr_transactions result))"
    by simp
  then have d: "map ci_description (createInputs (calls w4)) =
             map ci_description (createInputs (calls w3)) @
             map row_description (cr_transactions result)"
    by (simp add: comp_def)
  have "csvImportConfirm e message w =
             (json_ok ((dataOf (successMessage n m))\<lparr>rd_type := Some ''csv_success''\<rparr>), w4)"
    using assms loop by (simp add: csvImportConfirm_def csvImportConfirmTry_def)
  with e d show ?thesis by auto
qed

theorem confirm_counts_every_row_witness:
  "find_sub confirmMarker ''Process CSV import: a,b,c'' = Some ([], ''a,b,c'') \<and>
   parseCSVWithGemini importEnv ''a,b,c'' world0 =
     (Inr \<lparr>cr_transactions = sampleRows, cr_preview = ''3 rows''\<rparr>,
      logged (ParseCSVWithGemini ''a,b,c'') world0) \<and>
   getServices importEnv (logged (ParseCSVWithGemini ''a,b,c'') world0) =
     (Inr ''user-1'', logged GetServices (logged (ParseCSVWithGemini ''a,b,c'') world0)) \<and>
   findById importEnv ''user-1'' (logged GetServices (logged (ParseCSVWithGemini ''a,b,c'') world0)) =
     (Inr (Some \<lparr>pr_defaultCurrency = Some ''EUR''\<rparr>),
      logged (FindById ''user-1'')
        (logged GetServices (logged (ParseCSVWithGemini ''a,b,c'') world0))) \<and>
   (\<exists>importedCount failedCount w4.
      csvImportConfirm importEnv ''Process CSV import: a,b,c'' world0 =
        (json_ok ((dataOf (successMessage importedCount failedCount))
           \<lparr>rd_type := Some ''csv_success''\<rparr>), w4) \<and>
      importedCount + failedCount = 3 \<and>
      length (ledger w4) = importedCount \<and>
      map ci_description (createInputs (calls w4)) = [''lunch'', ''rejected'', ''salary''])"
proof -
  have h1: "find_sub confirmMarker ''Process CSV import: a,b,c'' = Some ([], ''a,b,c'')"
    by (simp add: confirmMarker_def)
  have h2: "parseCSVWithGemini importEnv ''a,b,c'' world0 =
     (Inr \<lparr>cr_transactions = sampleRows, cr_preview = ''3 rows''\<rparr>,
      logged (ParseCSVWithGemini ''a,b,c'') world0)"
    by (simp add: parseCSVWithGemini_def importEnv_def envDown_def)
  have h3: "getServices importEnv (logged (ParseCSVWithGemini ''a,b,c'') world0) =
     (Inr ''user-1'', logged GetServices (logged (ParseCSVWithGemini ''a,b,c'') world0))"
    by (simp add: getServices_def importEnv_def envDown_def)
  have h4: "findById importEnv ''user-1''
       (logged GetServices (logged (ParseCSVWithGemini ''a,b,c'') world0)) =
     (Inr (Some \<lparr>pr_defaultCurrency = Some ''EUR''\<rparr>),
      logged (FindById ''user-1'')
        (logged GetServices (logged (ParseCSVWithGemini ''a,b,c'') world0)))"
    by (simp add: findById_def importEnv_def envDown_def)
  from confirm_counts_every_row [OF h1 h2 h3 h4] obtain n m w4 where
    r: "csvImportConfirm importEnv ''Process CSV import: a,b,c'' world0 =
          (json_ok ((dataOf (successMessage n m))\<lparr>rd_type := Some ''csv_success''\<rparr>), w4)"
       "n + m = length (cr_transactions \<lparr>cr_transactions = sampleRows, cr_preview = ''3 rows''\<rparr>)"
       "length (ledger w4) =
          length (ledger (logged (FindById ''user-1'')
            (logged GetServices (logged (ParseCSVWithGemini ''a,b,c'') world0)))) + n"
       "map ci_description (createInputs (calls w4)) =
          map ci_description (createInputs (calls (logged (FindById ''user-1'')
            (logged GetServices (logged (ParseCSVWithGemini ''a,b,c'') world0))))) @
          map row_description
            (cr_transactions \<lparr>cr_transactions = sampleRows, cr_preview = ''3 rows''\<rparr>)"
    by blast
  have c1: "n + m = 3"
    using r(2) by (simp add: sampleRows_def)
  have c2: "length (ledger w4) = n"
    using r(3) by (simp add: world0_def)
  have c3: "map ci_description (createInputs (calls w4)) = [''lunch'', ''rejected'', ''salary'']"
    using r(4) by (simp add: sampleRows_def world0_def)
  from r(1) c1 c2 c3 have "\<exists>importedCount failedCount w4.
      csvImportConfirm importEnv ''Process CSV import: a,b,c'' world0 =
        (json_ok ((dataOf (successMessage importedCount failedCount))
           \<lparr>rd_type := Some ''csv_success''\<rparr>), w4) \<and>
      importedCount + failedCount = 3 \<and>
      length (ledger w4) = importedCount \<and>
      map ci_description (createInputs (calls w4)) = [''lunch'', ''rejected'', ''salary'']"
    by (intro exI [of _ n] exI [of _ m] exI [of _ w4] conjI)
  with h1 h2 h3 h4 show ?thesis
    by (intro conjI)
qed

text \<open>
  C10: in the loop of the confirm phase the amount passed to \<open>createTransaction\<close> is the
  absolute value of the row's amount and the currency is \<open>USD\<close>, for every row and in
  the order of the rows; every record that the ledger takes has a non-negative amount
  in \<open>USD\<close>.  The argument has no field for \<open>convertedAmount\<close> or \<open>conversionRate\<close>.
\<close>

theorem confirm_persists_absolute_usd:
  "map (\<lambda>i. (ci_amount i, ci_currency i))
     (createInputs (calls (snd (importLoop e u dc rows c w)))) =
   map (\<lambda>i. (ci_amount i, ci_currency i)) (createInputs (calls w)) @
   map (\<lambda>row. (\<bar>row_amount row\<bar>, ''USD'')) rows \<and>
   (\<exists>added. ledger (snd (importLoop e u dc rows c w)) = ledger w @ added \<and>
      list_all (\<lambda>(u, i). 0 \<le> ci_amount i \<and> ci_currency i = ''USD'') added)"
proof -
  obtain n m where c: "c = (n, m)" by (cases c)
  obtain n' m' w' where loop: "importLoop e u dc rows (n, m) w = ((n', m'), w')"
    by (metis surj_pair)
  from importLoop_effect [OF loop] obtain added where
    e: "map (\<lambda>i. (ci_amount i, ci_currency i, ci_description i)) (createInputs (calls w')) =
        map (\<lambda>i. (ci_amount i, ci_currency i, ci_description i)) (createInputs (calls w)) @
        map (\<lambda>row. (\<bar>row_amount row\<bar>, ''USD'', row_description row)) rows"
       "ledger w' = ledger w @ added"
       "list_all (\<lambda>(u, i). 0 \<le> ci_amount i \<and> ci_currency i = ''USD'') added"
    by auto
  from e(1) have "map (\<lambda>x. (fst x, fst (snd x)))
       (map (\<lambda>i. (ci_amount i, ci_currency i, ci_description i)) (createInputs (calls w'))) =
     map (\<lambda>x. (fst x, fst (snd x)))
       (map (\<lambda>i. (ci_amount i, ci_currency i, ci_description i)) (createInputs (calls w)) @
        map (\<lambda>row. (\<bar>row_amount row\<bar>, ''USD'', row_description row)) rows)"
    by simp
  then have "map (\<lambda>i. (ci_amount i, ci_currency i)) (createInputs (calls w')) =
      map (\<lambda>i. (ci_amount i, ci_currency i)) (createInputs (calls w)) @
      map (\<lambda>row. (\<bar>row_amount row\<bar>, ''USD'')) rows"
    by (simp add: comp_def)
  with e(2,3) c loop show ?thesis by auto
qed

text \<open>
  The expense row of \<open>-50\<close> for a user with the default currency EUR and a converter
  that doubles: the record \<open>newTransaction\<close> holds \<open>-100\<close> EUR at rate 2, the ledger
  receives 50 USD.
\<close>

lemma confirm_expense_row_example:
  "newTransaction expenseRow (fst (convertRow importEnv ''EUR'' expenseRow world0)) =
     \<lparr>nt_description = ''lunch'', nt_originalAmount = 50, nt_originalCurrency = ''USD'',
      nt_convertedAmount = - 100, nt_convertedCurrency = ''EUR'', nt_conversionRate = Some 2,
      nt_conversionFee = 0, nt_category = ''Food'', nt_date = None, nt_type = ''expense'',
      nt_vendor = ''CSV Import''\<rparr> \<and>
   ledger (snd (importRowTry importEnv ''user-1'' ''EUR'' expenseRow world0)) =
     [(''user-1'', \<lparr>ci_amount = 50, ci_currency = ''USD'', ci_description = ''lunch'',
        ci_category = ''Food'', ci_type = None, ci_date = None, ci_vendor = ''CSV Import''\<rparr>)]"
  by (simp add: importRowTry_def convertRow_def convertAmount_def createTransaction_def
      newTransaction_def createInputOf_def csvCurrency_def js_div_def importEnv_def envDown_def
      expenseRow_def world0_def)

subsection \<open>Currency conversion\<close>

text \<open>
  C3, as the specification states it, fails in the confirm phase: for the expense row
  of \<open>-50\<close> and a converter that throws, \<open>convertedAmount\<close> is \<open>-50\<close> and
  \<open>originalAmount\<close> is \<open>50\<close>.
\<close>

theorem failed_conversion_counterexample:
  "csvCurrency \<noteq> ''EUR'' \<and>
   fst (convertAmount envDown \<bar>row_amount expenseRow\<bar> csvCurrency ''EUR'' world0) = Inl NonError \<and>
   nt_convertedAmount (newTransaction expenseRow (fst (convertRow envDown ''EUR'' expenseRow world0)))
     \<noteq> nt_originalAmount (newTransaction expenseRow (fst (convertRow envDown ''EUR'' expenseRow world0)))"
  by (simp add: csvCurrency_def convertAmount_def envDown_def convertRow_def newTransaction_def
      expenseRow_def)

text \<open>
  C3, amended: when the currency differs from the default and the converter throws, the
  record of the confirm phase has \<open>convertedAmount\<close> equal to the signed amount of the
  row, \<open>originalAmount\<close> equal to its absolute value, \<open>convertedCurrency\<close> equal to
  \<open>originalCurrency\<close> and \<open>conversionRate\<close> 1; on the default path \<open>finalAmount\<close> is the
  amount of the entry, \<open>finalCurrency\<close> its currency and \<open>conversionRate\<close> 1.
\<close>

theorem failed_conversion_keeps_amount:
  "(csvCurrency \<noteq> dc \<and>
    fst (convertAmount e \<bar>row_amount row\<bar> csvCurrency dc w) = Inl err \<longrightarrow>
      nt_convertedAmount (newTransaction row (fst (convertRow e dc row w))) = row_amount row \<and>
      nt_originalAmount (newTransaction row (fst (convertRow e dc row w))) = \<bar>row_amount row\<bar> \<and>
      nt_convertedCurrency (newTransaction row (fst (convertRow e dc row w))) =
        nt_originalCurrency (newTransaction row (fst (convertRow e dc row w))) \<and>
      nt_conversionRate (newTransaction row (fst (convertRow e dc row w))) = Some 1) \<and>
   (or_else (ti_currency ti) dc \<noteq> dc \<and>
    fst (convertAmount e (ti_amount ti) (or_else (ti_currency ti) dc) dc w) = Inl err \<longrightarrow>
      fst (convertEntry e dc ti w) = (ti_amount ti, or_else (ti_currency ti) dc, Some 1))"
  by (auto simp: convertRow_def convertEntry_def newTransaction_def convertAmount_def Let_def
      split: sum.splits prod.splits)

theorem failed_conversion_keeps_amount_witness:
  "csvCurrency \<noteq> ''EUR'' \<and>
   fst (convertAmount envDown \<bar>row_amount expenseRow\<bar> csvCurrency ''EUR'' world0) = Inl NonError \<and>
   nt_convertedAmount (newTransaction expenseRow (fst (convertRow envDown ''EUR'' expenseRow world0)))
     = - 50 \<and>
   nt_originalAmount (newTransaction expenseRow (fst (convertRow envDown ''EUR'' expenseRow world0)))
     = 50 \<and>
   nt_conversionRate (newTransaction expenseRow (fst (convertRow envDown ''EUR'' expenseRow world0)))
     = Some 1 \<and>
   or_else (ti_currency expenseEntry) ''EUR'' \<noteq> ''EUR'' \<and>
   fst (convertAmount envDown (ti_amount expenseEntry) (or_else (ti_currency expenseEntry) ''EUR'')
          ''EUR'' world0) = Inl NonError \<and>
   fst (convertEntry envDown ''EUR'' expenseEntry world0) = (- 50, ''USD'', Some 1)"
  using failed_conversion_keeps_amount [of "''EUR''" envDown expenseRow world0 NonError expenseEntry]
  by (simp add: csvCurrency_def convertAmount_def envDown_def expenseRow_def expenseEntry_def)

text \<open>
  C5, as the specification states it, fails on the default path: the entry of \<open>-50\<close> is
  handed to the converter with its sign, the absolute value is not converted and no
  sign is applied afterwards; with a converter that answers with a magnitude the result
  is \<open>+100\<close>.
\<close>

theorem sign_counterexample:
  "ti_amount expenseEntry < 0 \<and>
   calls (snd (convertEntry magnitudeEnv ''EUR'' expenseEntry world0)) =
     [ConvertAmount (- 50) ''USD'' ''EUR''] \<and>
   env_convertAmount magnitudeEnv [] \<bar>ti_amount expenseEntry\<bar> ''USD'' ''EUR'' = Inr 100 \<and>
   fst (fst (convertEntry magnitudeEnv ''EUR'' expenseEntry world0)) = 100"
  by (simp add: convertEntry_def convertAmount_def magnitudeEnv_def envDown_def expenseEntry_def
      world0_def logged_def)

text \<open>
  C5, amended: in the confirm phase a negative amount is converted by its absolute
  value and the result \<open>c\<close> of the converter is negated, whatever the converter answers;
  on the default path the signed amount itself is handed to the converter, and when the
  converter multiplies by a rate \<open>r\<close> the result is \<open>-(|amount| * r)\<close> with
  \<open>conversionRate\<close> \<open>r\<close>.
\<close>

theorem sign_preserved:
  "(row_amount row < 0 \<and> csvCurrency \<noteq> dc \<and>
    env_convertAmount e (calls w) \<bar>row_amount row\<bar> csvCurrency dc = Inr c \<longrightarrow>
      convertRow e dc row w =
        ((- c, dc, js_div c \<bar>row_amount row\<bar>),
         logged (ConvertAmount \<bar>row_amount row\<bar> csvCurrency dc) w)) \<and>
   (ti_amount ti < 0 \<and> or_else (ti_currency ti) dc \<noteq> dc \<and>
    env_convertAmount e (calls w) (ti_amount ti) (or_else (ti_currency ti) dc) dc =
      Inr (ti_amount ti * r) \<longrightarrow>
      convertEntry e dc ti w =
        ((- (\<bar>ti_amount ti\<bar> * r), dc, Some r),
         logged (ConvertAmount (ti_amount ti) (or_else (ti_currency ti) dc) dc) w))"
  by (auto simp: convertRow_def convertEntry_def convertAmount_def Let_def js_div_def)

theorem sign_preserved_witness:
  "row_amount expenseRow < 0 \<and> csvCurrency \<noteq> ''EUR'' \<and>
   env_convertAmount rateEnv (calls world0) \<bar>row_amount expenseRow\<bar> csvCurrency ''EUR'' = Inr 100 \<and>
   convertRow rateEnv ''EUR'' expenseRow world0 =
     ((- 100, ''EUR'', Some 2), logged (ConvertAmount 50 ''USD'' ''EUR'') world0) \<and>
   ti_amount expenseEntry < 0 \<and> or_else (ti_currency expenseEntry) ''EUR'' \<noteq> ''EUR'' \<and>
   env_convertAmount rateEnv (calls world0) (ti_amount expenseEntry)
     (or_else (ti_currency expenseEntry) ''EUR'') ''EUR'' = Inr (ti_amount expenseEntry * 2) \<and>
   convertEntry rateEnv ''EUR'' expenseEntry world0 =
     ((- 100, ''EUR'', Some 2), logged (ConvertAmount (- 50) ''USD'' ''EUR'') world0)"
  using sign_preserved [of expenseRow "''EUR''" rateEnv world0 100 expenseEntry 2]
  by (simp add: csvCurrency_def rateEnv_def envDown_def expenseRow_def expenseEntry_def
      js_div_def)

subsection \<open>The default path without the ledger\<close>

lemma POST_default:
  assumes "defaultRequest e w message"
  shows "POST e w =
     (case defaultPath e message (logged RequestJson w) of
        (Inr r, w1) \<Rightarrow> (r, w1)
      | (Inl err, w1) \<Rightarrow>
          (\<lparr>status = 500,
            body = FailureBody ''Failed to process chat message. Please try again.''\<rparr>, w1))"
  using assms
  by (auto simp: defaultRequest_def POST_def POSTTry_def requestJson_def
      split: sum.splits option.splits prod.splits)




subsection \<open>Entries, questions and general chat\<close>

lemma noIntent_refl [simp]: "noIntent w w"
  by (simp add: noIntent_def)

lemma noIntent_trans: "noIntent w w1 \<Longrightarrow> noIntent w1 w2 \<Longrightarrow> noIntent w w2"
  by (simp add: noIntent_def)

lemma noIntent_logged [simp]: "\<not> isIntentCall c \<Longrightarrow> noIntent w (logged c w)"
  by (simp add: noIntent_def)

lemma convertEntry_quiet:
  "convertEntry e dc ti w = (final, w') \<Longrightarrow> noIntent w w' \<and> ledger w' = ledger w"
  by (auto simp: convertEntry_def convertAmount_def Let_def split: if_splits sum.splits)

lemma addTransactionTry_effect:
  assumes "addTransactionTry e m s u ti w = ((r, added), w')"
  shows "noIntent w w' \<and> (added \<longrightarrow> ledger w' \<noteq> ledger w) \<and>
         (\<not> added \<longrightarrow> ledger w' = ledger w)"
proof (cases "findById e u w")
  case (Pair fr w1)
  show ?thesis
  proof (cases fr)
    case (Inl err)
    with Pair assms show ?thesis
      by (auto simp: addTransactionTry_def findById_def)
  next
    case (Inr profile)
    obtain final w2 where c: "convertEntry e (defaultCurrencyOf profile) ti w1 = (final, w2)"
      by (cases "convertEntry e (defaultCurrencyOf profile) ti w1")
    from convertEntry_quiet [OF c] Pair have q: "noIntent w w2" "ledger w2 = ledger w"
      by (auto simp: findById_def noIntent_def)
    from assms Pair Inr c q show ?thesis
      by (auto simp: addTransactionTry_def Let_def createTransaction_def generateContent_def
          noIntent_def split: option.splits sum.splits)
  qed
qed

lemma addTransaction_effect:
  assumes "addTransaction e m s u ti w = ((text, added), w')"
  shows "noIntent w w' \<and> (added \<longrightarrow> ledger w' \<noteq> ledger w) \<and>
         (\<not> added \<longrightarrow> ledger w' = ledger w) \<and>
         (\<exists>cs p. calls w' = cs @ [GenerateContent p])"
proof -
  obtain r a w1 where t: "addTransactionTry e m s u ti w = ((r, a), w1)"
    by (metis surj_pair)
  from addTransactionTry_effect [OF t]
  have q: "noIntent w w1" "a \<longrightarrow> ledger w1 \<noteq> ledger w" "\<not> a \<longrightarrow> ledger w1 = ledger w"
    by simp_all
  show ?thesis
  proof (cases r)
    case (Inl err)
    with assms t q show ?thesis
      by (auto simp: addTransaction_def generateContent_def noIntent_def split: sum.splits)
  next
    case (Inr t0)
    with assms t have w: "w' = w1" "added = a" by (auto simp: addTransaction_def)
    from t Inr have "\<exists>cs p. calls w1 = cs @ [GenerateContent p]"
      by (auto simp: addTransactionTry_def Let_def findById_def createTransaction_def
          generateContent_def split: sum.splits option.splits prod.splits)
    with w q show ?thesis by simp
  qed
qed

lemma handleFinancialQueryWithLLM_world:
  "handleFinancialQueryWithLLM e m l w = (r, w') \<Longrightarrow>
     w' = logged (GenerateContent (ClassifyPrompt m l)) w"
  by (auto simp: handleFinancialQueryWithLLM_def generateContent_def
      split: sum.splits option.splits)

lemma generalOrFinancial_effect:
  assumes "generalOrFinancial e m s u w = (r, w')"
  shows "ledger w' = ledger w \<and>
         (\<forall>cs u' m' l answer.
            calls w' = cs @ [AnswerFinancialQuestion u' m' l] \<and>
            env_answerFinancialQuestion e cs u' m' l = Inr answer \<longrightarrow>
            r = Inr (json_ok (chatData answer False)))"
  using assms
  by (auto simp: generalOrFinancial_def financialAnswer_def generateContent_def
      detectLanguage_def answerFinancialQuestion_def
      split: sum.splits prod.splits if_splits option.splits
      dest!: handleFinancialQueryWithLLM_world)

lemma extractTransactionInfo_quiet:
  "extractTransactionInfo e m w = (ti, w') \<Longrightarrow> noIntent w w' \<and> ledger w' = ledger w"
  by (auto simp: extractTransactionInfo_def parseTransactionText_def
      split: sum.splits option.splits if_splits)

lemma entryOrChat_effect:
  assumes "entryOrChat e m s u w = (r, w')"
  shows "(ledger w' \<noteq> ledger w \<longrightarrow>
            noIntent w w' \<and> (\<exists>text. r = Inr (json_ok (chatData text True)))) \<and>
         (\<forall>cs u' m' l answer.
            calls w' = cs @ [AnswerFinancialQuestion u' m' l] \<and>
            env_answerFinancialQuestion e cs u' m' l = Inr answer \<longrightarrow>
            r = Inr (json_ok (chatData answer False)))"
proof -
  obtain ti w1 where x: "extractTransactionInfo e m w = (ti, w1)"
    by (cases "extractTransactionInfo e m w")
  from extractTransactionInfo_quiet [OF x] have q1: "noIntent w w1" "ledger w1 = ledger w"
    by simp_all
  show ?thesis
  proof (cases ti)
    case None
    with assms x have g: "generalOrFinancial e m s u w1 = (r, w')"
      by (simp add: entryOrChat_def)
    from generalOrFinancial_effect [OF g] q1 show ?thesis by auto
  next
    case (Some info)
    obtain reply added w2 where a: "addTransaction e m s u info w1 = ((reply, added), w2)"
      by (metis surj_pair)
    from addTransaction_effect [OF a] obtain cs p where
      q2: "noIntent w1 w2" "added \<longrightarrow> ledger w2 \<noteq> ledger w1"
          "\<not> added \<longrightarrow> ledger w2 = ledger w1" "calls w2 = cs @ [GenerateContent p]"
      by blast
    show ?thesis
    proof (cases added)
      case True
      with assms x Some a have "r = Inr (json_ok (chatData reply True))" "w' = w2"
        by (simp_all add: entryOrChat_def)
      with q1 q2 show ?thesis
        by (auto intro: noIntent_trans)
    next
      case False
      with assms x Some a have g: "generalOrFinancial e m s u w2 = (r, w')"
        by (simp add: entryOrChat_def)
      from generalOrFinancial_effect [OF g] q1 q2 False show ?thesis by auto
    qed
  qed
qed

lemma defaultTry_effect:
  assumes "defaultTry e m w = (r, w')"
  shows "(ledger w' \<noteq> ledger w \<longrightarrow>
            noIntent w w' \<and> (\<exists>reply. r = Inr (json_ok (chatData reply True)))) \<and>
         (\<forall>cs u' m' l answer.
            calls w' = cs @ [AnswerFinancialQuestion u' m' l] \<and>
            env_answerFinancialQuestion e cs u' m' l = Inr answer \<longrightarrow>
            r = Inr (json_ok (chatData answer False)))"
proof (cases "\<exists>u ts p s. env_getServices e (calls w) = Inr u \<and>
    env_getTransactions e (calls w @ [GetServices]) u 1000 = Inr ts \<and>
    env_findById e (calls w @ [GetServices, GetTransactions u 1000]) u = Inr p \<and>
    snapshotOf e ts (defaultCurrencyOf p) = Inr s")
  case False
  with assms show ?thesis
    by (auto simp: defaultTry_def getServices_def getTransactions_def findById_def
        split: sum.splits prod.splits)
next
  case True
  then obtain u ts p s where
    f: "env_getServices e (calls w) = Inr u"
       "env_getTransactions e (calls w @ [GetServices]) u 1000 = Inr ts"
       "env_findById e (calls w @ [GetServices, GetTransactions u 1000]) u = Inr p"
       "snapshotOf e ts (defaultCurrencyOf p) = Inr s"
    by blast
  define w3 where "w3 = logged (FindById u) (logged (GetTransactions u 1000) (logged GetServices w))"
  have q: "noIntent w w3" "ledger w3 = ledger w"
    by (simp_all add: w3_def noIntent_def)
  from assms f have "entryOrChat e m s u w3 = (r, w')"
    by (simp add: defaultTry_def getServices_def getTransactions_def findById_def w3_def)
  from entryOrChat_effect [OF this] q show ?thesis
    by (auto intro: noIntent_trans)
qed

lemma defaultTry_error_ledger:
  assumes "defaultTry e m w = (Inl err, w')"
  shows "ledger w' = ledger w"
  using defaultTry_effect [OF assms] by auto

lemma defaultPath_effect:
  assumes "defaultPath e m w = (r, w')"
  shows "(ledger w' \<noteq> ledger w \<longrightarrow>
            noIntent w w' \<and> (\<exists>reply. r = Inr (json_ok (chatData reply True)))) \<and>
         (\<forall>cs u' m' l answer.
            calls w' = cs @ [AnswerFinancialQuestion u' m' l] \<and>
            env_answerFinancialQuestion e cs u' m' l = Inr answer \<longrightarrow>
            r = Inr (json_ok (chatData answer False)))"
proof -
  obtain r1 w1 where t: "defaultTry e m w = (r1, w1)"
    by (cases "defaultTry e m w")
  show ?thesis
  proof (cases r1)
    case (Inr resp)
    with assms t have "r = r1" "w' = w1" by (simp_all add: defaultPath_def)
    with defaultTry_effect [OF t] show ?thesis by auto
  next
    case (Inl err)
    with t have l: "ledger w1 = ledger w" by (simp add: defaultTry_error_ledger)
    from assms t Inl have "w' = logged (GenerateContent (FallbackPrompt m)) w1"
      by (auto simp: defaultPath_def dbFallback_def generateContent_def split: sum.splits)
    with l show ?thesis by simp
  qed
qed

lemmas route_defs =
  POST_def POSTTry_def defaultPath_def dbFallback_def defaultTry_def entryOrChat_def
  snapshotOf_def generalOrFinancial_def financialAnswer_def addTransaction_def
  addTransactionTry_def convertEntry_def entryInputOf_def extractTransactionInfo_def
  handleFinancialQueryWithLLM_def parseClassification_def jsonTextOf_def codeBlockMatch_def
  csvImport_def csvImportTry_def analyzeDuplicate_def duplicateAnalysisPrompt_def
  duplicateDetected_def aiExplanationOf_def includes_str_def validTime_def
  csvImportConfirm_def csvImportConfirmTry_def importRowTry_def convertRow_def
  newTransaction_def createInputOf_def
  requestJson_def generateContent_def parseCSVWithGemini_def getServices_def findById_def
  getTransactions_def convertAmount_def createTransaction_def parseTransactionText_def
  detectLanguage_def answerFinancialQuestion_def
  incomeOf_def expensesOf_def amountOr0_def js_div_def trim_def is_space_def
  json_ok_def chatData_def dataOf_def duplicateData_def previewData_def
  previewMarker_def confirmMarker_def csvCurrency_def nl_def unknownIntent_def
  fixedErrorMessage_def logged_def world0_def envDown_def upper_def Let_def

lemma POST_entryEnv:
  "POST entryEnv world0 =
     (json_ok (chatData ''Added your $12 lunch.'' True),
      \<lparr>ledger = [(''user-1'', \<lparr>ci_amount = - 12, ci_currency = ''USD'',
          ci_description = ''lunch'', ci_category = ''Food'', ci_type = Some ''expense'',
          ci_date = None, ci_vendor = ''Unknown''\<rparr>)],
       calls = [RequestJson, GetServices, GetTransactions ''user-1'' 1000, FindById ''user-1'',
          ParseTransactionText ''Spent $12 on lunch, what is left?'', FindById ''user-1'',
          CreateTransaction ''user-1'' \<lparr>ci_amount = - 12, ci_currency = ''USD'',
            ci_description = ''lunch'', ci_category = ''Food'', ci_type = Some ''expense'',
            ci_date = None, ci_vendor = ''Unknown''\<rparr>,
          GenerateContent (TransactionSuccessPrompt
            \<lparr>sn_balance = ''$0.00'', sn_income = ''$0.00'', sn_expenses = ''$0.00'',
              sn_transactionCount = 1, sn_defaultCurrency = ''USD''\<rparr>
            ''Spent $12 on lunch, what is left?''
            \<lparr>ti_description = ''lunch'', ti_amount = - 12, ti_currency = None,
              ti_category = ''Food'', ti_type = ''expense'', ti_date = None, ti_vendor = None\<rparr>
            ''$12.00'')]\<rparr>)"
  by (simp add: route_defs entryEnv_def)

lemma POST_questionEnv:
  "POST questionEnv world0 =
     (json_ok (chatData ''Your balance is $0.00.'' False),
      \<lparr>ledger = [],
       calls = [RequestJson, GetServices, GetTransactions ''user-1'' 1000, FindById ''user-1'',
          ParseTransactionText ''What is my balance?'',
          GenerateContent (GeneralPrompt
            \<lparr>sn_balance = ''$0.00'', sn_income = ''$0.00'', sn_expenses = ''$0.00'',
              sn_transactionCount = 0, sn_defaultCurrency = ''USD''\<rparr>
            ''What is my balance?''),
          DetectLanguage ''What is my balance?'',
          GenerateContent (ClassifyPrompt ''What is my balance?'' (Some ''en'')),
          DetectLanguage ''What is my balance?'',
          AnswerFinancialQuestion ''user-1'' ''What is my balance?'' ''en'']\<rparr>)"
  by (simp add: route_defs questionEnv_def entryEnv_def)

text \<open>
  C6: on the default path, when a transaction is extracted and persisted (the ledger
  has grown), neither the prompt that classifies the intent nor the Q&A collaborator is
  called, and the response carries \<open>transactionAdded: true\<close>; and when the Q&A
  collaborator is called and answers, the response carries its answer and not the
  general chat reply composed before.
\<close>

theorem entry_before_question:
  assumes "defaultRequest e w message"
  shows "(ledger (snd (POST e w)) \<noteq> ledger w \<longrightarrow>
            noIntent w (snd (POST e w)) \<and>
            (\<exists>reply. fst (POST e w) = json_ok (chatData reply True))) \<and>
         (\<forall>cs u m l answer.
            calls (snd (POST e w)) = cs @ [AnswerFinancialQuestion u m l] \<and>
            env_answerFinancialQuestion e cs u m l = Inr answer \<longrightarrow>
            fst (POST e w) = json_ok (chatData answer False))"
proof -
  obtain r w' where d: "defaultPath e message (logged RequestJson w) = (r, w')"
    by (cases "defaultPath e message (logged RequestJson w)")
  have p: "snd (POST e w) = w'"
    using POST_default [OF assms] d by (simp split: sum.splits)
  have n: "noIntent w (logged RequestJson w)" by simp
  from defaultPath_effect [OF d] have
    a: "ledger w' \<noteq> ledger w \<longrightarrow>
          noIntent (logged RequestJson w) w' \<and> (\<exists>reply. r = Inr (json_ok (chatData reply True)))"
    and b: "\<forall>cs u' m' l answer.
            calls w' = cs @ [AnswerFinancialQuestion u' m' l] \<and>
            env_answerFinancialQuestion e cs u' m' l = Inr answer \<longrightarrow>
            r = Inr (json_ok (chatData answer False))"
    by auto
  have f: "r = Inr x \<Longrightarrow> fst (POST e w) = x" for x
    using POST_default [OF assms] d by simp
  show ?thesis
  proof (intro conjI impI allI)
    assume "ledger (snd (POST e w)) \<noteq> ledger w"
    with p a show "noIntent w (snd (POST e w))"
      by (auto intro: noIntent_trans [OF n])
  next
    assume "ledger (snd (POST e w)) \<noteq> ledger w"
    with p a f show "\<exists>reply. fst (POST e w) = json_ok (chatData reply True)"
      by auto
  next
    fix cs u m l answer
    assume "calls (snd (POST e w)) = cs @ [AnswerFinancialQuestion u m l] \<and>
            env_answerFinancialQuestion e cs u m l = Inr answer"
    with p b f show "fst (POST e w) = json_ok (chatData answer False)"
      by blast
  qed
qed

theorem entry_before_question_witness:
  "defaultRequest entryEnv world0 ''Spent $12 on lunch, what is left?'' \<and>
   ledger (snd (POST entryEnv world0)) \<noteq> ledger world0 \<and>
   noIntent world0 (snd (POST entryEnv world0)) \<and>
   (\<exists>reply. fst (POST entryEnv world0) = json_ok (chatData reply True)) \<and>
   defaultRequest questionEnv world0 ''What is my balance?'' \<and>
   calls (snd (POST questionEnv world0)) =
     butlast (calls (snd (POST questionEnv world0))) @
     [AnswerFinancialQuestion ''user-1'' ''What is my balance?'' ''en''] \<and>
   env_answerFinancialQuestion questionEnv (butlast (calls (snd (POST questionEnv world0))))
     ''user-1'' ''What is my balance?'' ''en'' = Inr ''Your balance is $0.00.'' \<and>
   fst (POST questionEnv world0) = json_ok (chatData ''Your balance is $0.00.'' False)"
proof -
  have e1: "defaultRequest entryEnv world0 ''Spent $12 on lunch, what is left?''"
    by (simp add: defaultRequest_def entryEnv_def envDown_def)
  have e2: "ledger (snd (POST entryEnv world0)) \<noteq> ledger world0"
    by (simp add: POST_entryEnv) (simp add: world0_def)
  from entry_before_question [OF e1] e2
  have e3: "noIntent world0 (snd (POST entryEnv world0)) \<and>
            (\<exists>reply. fst (POST entryEnv world0) = json_ok (chatData reply True))"
    by blast
  have q1: "defaultRequest questionEnv world0 ''What is my balance?''"
    by (simp add: defaultRequest_def questionEnv_def entryEnv_def envDown_def)
  have q2: "calls (snd (POST questionEnv world0)) =
     butlast (calls (snd (POST questionEnv world0))) @
     [AnswerFinancialQuestion ''user-1'' ''What is my balance?'' ''en'']"
    by (simp add: POST_questionEnv)
  have q3: "env_answerFinancialQuestion questionEnv
     (butlast (calls (snd (POST questionEnv world0))))
     ''user-1'' ''What is my balance?'' ''en'' = Inr ''Your balance is $0.00.''"
    by (simp add: questionEnv_def entryEnv_def envDown_def)
  from entry_before_question [OF q1] q2 q3
  have q4: "fst (POST questionEnv world0) = json_ok (chatData ''Your balance is $0.00.'' False)"
    by blast
  from e1 e2 e3 q1 q2 q3 q4 show ?thesis
    by (intro conjI) simp_all
qed

subsection \<open>A failed persistence on the default path\<close>

text \<open>
  When an entry is detected and not added, the text that \<open>addTransaction\<close> composed is
  dropped: the response is the one of the general chat and of the financial question.
\<close>

lemma entry_not_added_reply_dropped:
  assumes "extractTransactionInfo e m w = (Some ti, w1)"
    and "addTransaction e m s u ti w1 = ((reply, False), w2)"
  shows "entryOrChat e m s u w = generalOrFinancial e m s u w2"
  using assms by (simp add: entryOrChat_def)

text \<open>
  C1: the route at the failing input.  The ledger refuses the record and the
  completion service answers the error prompt with an apology, yet the response
  carries the reply to the general prompt, composed afterwards; when the completion
  service fails as well, the response is the error of the top-level handler with status
  500, not the fixed message.
\<close>

theorem persistence_failure_reply_replaced:
  "POST persistFailsEnv world0 =
     (json_ok (chatData ''Great! I have added your $12 lunch expense.'' False),
      \<lparr>ledger = [],
       calls = [RequestJson, GetServices, GetTransactions ''user-1'' 1000, FindById ''user-1'',
          ParseTransactionText ''Spent $12 on lunch'', FindById ''user-1'',
          CreateTransaction ''user-1'' \<lparr>ci_amount = - 12, ci_currency = ''USD'',
            ci_description = ''lunch'', ci_category = ''Food'', ci_type = Some ''expense'',
            ci_date = None, ci_vendor = ''Unknown''\<rparr>,
          GenerateContent (TransactionErrorPrompt
            \<lparr>sn_balance = ''$0.00'', sn_income = ''$0.00'', sn_expenses = ''$0.00'',
              sn_transactionCount = 0, sn_defaultCurrency = ''USD''\<rparr>
            ''Spent $12 on lunch''),
          GenerateContent (GeneralPrompt
            \<lparr>sn_balance = ''$0.00'', sn_income = ''$0.00'', sn_expenses = ''$0.00'',
              sn_transactionCount = 0, sn_defaultCurrency = ''USD''\<rparr>
            ''Spent $12 on lunch''),
          DetectLanguage ''Spent $12 on lunch'',
          GenerateContent (ClassifyPrompt ''Spent $12 on lunch'' (Some ''en''))]\<rparr>) \<and>
   fst (POST (persistFailsEnv\<lparr>env_generateContent := (\<lambda>cs p. Inl NonError)\<rparr>) world0) =
     \<lparr>status = 500,
      body = FailureBody ''Failed to process chat message. Please try again.''\<rparr>"
  by (simp add: route_defs persistFailsEnv_def)

subsection \<open>The duplicate test of the preview phase\<close>


end
